theory Spec2Isabelle
  imports Main "HOL-Library.Sublist"
begin

section \<open>The chat route: data model\<close>

text \<open>
  A shallow embedding of \<^verbatim>\<open>app/(chat)/api/chat/route.ts\<close>: the handlers
  \<^verbatim>\<open>POST\<close> and \<^verbatim>\<open>DELETE\<close>, the three document tools and the
  \<^verbatim>\<open>onFinish\<close> callback. The route is glue between a session provider, a model
  provider and a persistence layer; each collaborator that the route calls but does not
  define is a field of the record \<open>env\<close> (a parameter of every theorem), and everything
  the route mutates (the tables, the outbound data stream, the console) is a field of the
  record \<open>state\<close>, passed in and returned.
\<close>

text \<open>
  What is thrown: a TypeError (a property read on \<^verbatim>\<open>undefined\<close>), a failing query, a
  SyntaxError (\<^verbatim>\<open>request.json()\<close> on a body that is not JSON), and the SDK's error for
  messages it cannot convert.
\<close>

datatype error = TypeError | PersistenceError | SyntaxError | MessageConversionError

datatype role = System | User | Assistant | Tool

datatype kind = KText | KCode

text \<open>The string a kind is on the wire: \<^verbatim>\<open>z.enum(['text', 'code'])\<close>.\<close>

fun kind_name :: "kind \<Rightarrow> string" where
  "kind_name KText = ''text''"
| "kind_name KCode = ''code''"

text \<open>
  The content of a core message is a string or a list of parts; a tool call and a tool
  result carry the \<^verbatim>\<open>toolCallId\<close> that pairs them.
\<close>

datatype part = TextPart string | ToolCallPart string string | ToolResultPart string string

datatype message_content = Text string | Parts "part list"

record core_message =
  role :: role
  content :: message_content

text \<open>
  The messages of the request body, before \<^verbatim>\<open>convertToCoreMessages\<close>. An assistant
  message may carry tool invocations, each still pending (a call without a result) or
  with its result.
\<close>

datatype tool_invocation = PendingCall string string | CallWithResult string string string

record ui_message =
  ui_id :: string
  ui_role :: string
  ui_content :: string
  ui_toolInvocations :: "tool_invocation list"

text \<open>
  The result of \<^verbatim>\<open>auth()\<close>: the session may be missing, its user may be missing,
  and the user's id may be undefined.
\<close>

record session_user =
  user_id :: "string option"

record session =
  session_user :: "session_user option"

record model =
  model_id :: string
  apiIdentifier :: string

subsection \<open>Rows of the four tables\<close>

record chat =
  chat_id :: string
  chat_userId :: string
  chat_title :: string
  chat_createdAt :: nat

record message =
  msg_id :: string
  msg_chatId :: string
  msg_role :: role
  msg_content :: message_content
  msg_createdAt :: nat

record document =
  doc_id :: string
  doc_createdAt :: nat
  doc_title :: string
  doc_content :: string
  doc_kind :: kind
  doc_userId :: string

text \<open>
  What the suggestion tool builds per element and streams:
  \<^verbatim>\<open>Omit<Suggestion, 'userId' | 'createdAt' | 'documentCreatedAt'>\<close>.
\<close>

record suggestion_draft =
  sd_originalText :: string
  sd_suggestedText :: string
  sd_description :: string
  sd_id :: string
  sd_documentId :: string
  sd_isResolved :: bool

record suggestion =
  sug_draft :: suggestion_draft
  sug_userId :: string
  sug_createdAt :: nat
  sug_documentCreatedAt :: nat

subsection \<open>The outbound stream\<close>

text \<open>
  \<^verbatim>\<open>dataStream.writeData({type, content})\<close> appends a typed event,
  \<^verbatim>\<open>dataStream.writeMessageAnnotation({messageIdFromServer})\<close> an annotation, and
  \<^verbatim>\<open>result.mergeIntoDataStream(dataStream)\<close> forwards what the top-level generation
  produces (\<open>ModelText\<close>, and \<open>ModelError\<close> for a tool that threw).
\<close>

datatype data_content = Str string | SuggestionContent suggestion_draft

datatype stream_part =
    WriteData string data_content
  | WriteMessageAnnotation string
  | ModelText string
  | ModelError

subsection \<open>What the model provider yields\<close>

text \<open>
  The parts a \<^verbatim>\<open>fullStream\<close> yields. The loops of the route look at
  \<^verbatim>\<open>text-delta\<close> parts (with their \<^verbatim>\<open>textDelta\<close>) and at \<^verbatim>\<open>object\<close> parts
  (with the \<^verbatim>\<open>code\<close> field of the partial object, which may be undefined); every
  other part type is \<open>OtherDelta\<close>.
\<close>

datatype delta = TextDelta string | ObjectDelta "string option" | OtherDelta

record generation =
  gen_model :: string
  gen_system :: string
  gen_prompt :: string
  gen_prediction :: "string option"

text \<open>An element of the suggestion tool's \<^verbatim>\<open>elementStream\<close>.\<close>

record element =
  originalSentence :: string
  suggestedSentence :: string
  el_description :: string

text \<open>
  What the top-level generation decides to do, in order: produce text or call a tool with
  the arguments it chose. For the weather tool the action also carries what the external
  weather service answers.
\<close>

datatype tool_call =
    GetWeather int int string
  | CreateDocument string kind
  | UpdateDocument string string
  | RequestSuggestions string

datatype action = Say string | Call tool_call

text \<open>
  What a tool returns to the model: \<^verbatim>\<open>{error}\<close>, the
  \<^verbatim>\<open>{id, title, kind, content}\<close> of the document tools, the
  \<^verbatim>\<open>{id, title, kind, message}\<close> of the suggestion tool, or the weather data.
\<close>

datatype tool_result =
    ErrorResult string
  | DocumentResult string string kind string
  | SuggestionsResult string string kind string
  | WeatherResult string

text \<open>
  What a handler returns: \<^verbatim>\<open>new Response(body, {status})\<close>, the streaming response
  of \<^verbatim>\<open>createDataStreamResponse\<close> with what was written to it, or a rejection the
  handler does not catch.
\<close>

datatype response =
    Response string nat
  | StreamResponse "stream_part list"
  | Unhandled error

text \<open>The parsed body of a POST request: \<^verbatim>\<open>{id, messages, modelId}\<close>.\<close>

record request =
  req_id :: string
  req_messages :: "ui_message list"
  req_modelId :: string

text \<open>
  The HTTP request \<^verbatim>\<open>POST\<close> receives. Its body is JSON of the shape above, or it is
  not JSON at all; nothing in the route validates it, so the role of a message is
  whatever string the client sent. \<^verbatim>\<open>await request.json()\<close> yields the parsed body or
  throws.
\<close>

datatype http_request = JsonBody request | NotJson

fun request_json :: "http_request \<Rightarrow> error + request" where
  "request_json (JsonBody body) = Inr body"
| "request_json NotJson = Inl SyntaxError"

subsection \<open>Collaborators and state\<close>

text \<open>
  The collaborators the route imports and calls: the session provider, the table of
  configured models, the SDK's message conversion, the title generation, the prompts and
  the model provider. None of them is defined in the route; each is a
  parameter. The SDK's \<^verbatim>\<open>convertToCoreMessages\<close> throws on messages it cannot convert
  (a role it does not support, a tool invocation without a result), so its result is the
  converted sequence or an error. A generation names its model by the \<^verbatim>\<open>apiIdentifier\<close> that
  \<^verbatim>\<open>customModel\<close> wraps. \<open>steps\<close> is what the top-level \<^verbatim>\<open>streamText\<close> call
  does for the given model identifier, system prompt and messages, one list of actions
  per generation round, and \<open>responseMessages\<close> is the \<^verbatim>\<open>response.messages\<close> it
  hands to \<^verbatim>\<open>onFinish\<close>.
\<close>

record env =
  auth :: "session option"
  models :: "model list"
  convertToCoreMessages :: "ui_message list \<Rightarrow> error + core_message list"
  generateTitleFromUserMessage :: "core_message \<Rightarrow> string"
  systemPrompt :: string
  codePrompt :: string
  updateDocumentPrompt :: "string \<Rightarrow> kind \<Rightarrow> string"
  streamText :: "generation \<Rightarrow> delta list"
  streamObject :: "generation \<Rightarrow> delta list"
  elementStream :: "generation \<Rightarrow> element list"
  steps :: "string \<Rightarrow> string \<Rightarrow> core_message list \<Rightarrow> action list list"
  responseMessages :: "string \<Rightarrow> string \<Rightarrow> core_message list \<Rightarrow> core_message list"

text \<open>
  The state the route reads and writes. \<open>db_available\<close> says whether the persistence
  layer answers: when it is false every query throws. \<open>uuid_source\<close> and \<open>uuid_count\<close>
  are the supply \<^verbatim>\<open>generateUUID\<close> draws from, \<open>clock\<close> is what \<^verbatim>\<open>new Date()\<close>
  reads, \<open>dataStream\<close> is the outbound channel of the request being served and
  \<open>console_errors\<close> collects the \<^verbatim>\<open>console.error\<close> lines (the
  \<^verbatim>\<open>console.log\<close> debug lines of the route are left out).
\<close>

record state =
  chat_rows :: "chat list"
  message_rows :: "message list"
  document_rows :: "document list"
  suggestion_rows :: "suggestion list"
  db_available :: bool
  uuid_source :: "nat \<Rightarrow> string"
  uuid_count :: nat
  clock :: nat
  dataStream :: "stream_part list"
  console_errors :: "string list"

section \<open>Helpers the route imports\<close>

text \<open>
  Modelled from the spec: \<^verbatim>\<open>generateUUID\<close> of \<^verbatim>\<open>@/lib/utils\<close> is missing. The
  spec calls its result a freshly generated identifier; the model draws the next element
  of the supply and advances the supply, so two calls never read the same position.
\<close>

definition generateUUID :: "state \<Rightarrow> string \<times> state" where
  "generateUUID st = (uuid_source st (uuid_count st), st\<lparr>uuid_count := Suc (uuid_count st)\<rparr>)"

text \<open>
  Modelled from the spec: \<^verbatim>\<open>getMostRecentUserMessage\<close> of \<^verbatim>\<open>@/lib/utils\<close> is
  missing. By its name and by the spec (the request is rejected when "the incoming
  message sequence contains no user-authored message") it yields the last message whose
  role is user, or nothing.
\<close>

definition getMostRecentUserMessage :: "core_message list \<Rightarrow> core_message option" where
  "getMostRecentUserMessage ms = find (\<lambda>m. role m = User) (rev ms)"

text \<open>
  Modelled from the spec: \<^verbatim>\<open>sanitizeResponseMessages\<close> of \<^verbatim>\<open>@/lib/utils\<close> is
  missing. The spec: it "strips any assistant-message fragments that represent an
  incomplete (unanswered) tool invocation". A fragment is a part of an assistant
  message; a tool call is answered when some tool message of the response carries a
  result with its \<^verbatim>\<open>toolCallId\<close>. The four functions before
  \<open>sanitizeResponseMessages\<close> are its parts.
\<close>

fun result_ids_of_part :: "part \<Rightarrow> string list" where
  "result_ids_of_part (ToolResultPart i r) = [i]"
| "result_ids_of_part p = []"

fun toolResultIds_of :: "core_message \<Rightarrow> string list" where
  "toolResultIds_of m =
     (if role m = Tool
      then (case content m of Parts ps \<Rightarrow> concat (map result_ids_of_part ps) | Text t \<Rightarrow> [])
      else [])"

fun answered :: "string list \<Rightarrow> part \<Rightarrow> bool" where
  "answered ids (ToolCallPart i n) = (i \<in> set ids)"
| "answered ids p = True"

definition sanitize_message :: "string list \<Rightarrow> core_message \<Rightarrow> core_message" where
  "sanitize_message ids m =
     (if role m = Assistant
      then (case content m of
              Parts ps \<Rightarrow> m\<lparr>content := Parts (filter (answered ids) ps)\<rparr>
            | Text t \<Rightarrow> m)
      else m)"

definition sanitizeResponseMessages :: "core_message list \<Rightarrow> core_message list" where
  "sanitizeResponseMessages ms = map (sanitize_message (concat (map toolResultIds_of ms))) ms"

subsection \<open>The persistence layer\<close>

text \<open>
  The route imports seven queries from \<^verbatim>\<open>@/lib/db/queries\<close>; their source is
  missing. The spec gives the tables (Chat, Message, Document, Suggestion) and what each
  query does: get by identifier, save, delete "all rows for that chat"; a Document is
  "created by the creation tool, overwritten (new content, same identifier) by the update
  tool"; any query may fail ("persistence failure"), which is a thrown error.
\<close>

text \<open>
  Modelled from the spec: \<^verbatim>\<open>getChatById\<close> is missing. It yields the Chat row with
  the identifier, or nothing (\<^verbatim>\<open>POST\<close> tests \<^verbatim>\<open>!chat\<close>).
\<close>

definition getChatById :: "string \<Rightarrow> state \<Rightarrow> error + chat option" where
  "getChatById i st =
     (if db_available st then Inr (find (\<lambda>c. chat_id c = i) (chat_rows st))
      else Inl PersistenceError)"

text \<open>
  Modelled from the spec: \<^verbatim>\<open>saveChat\<close> is missing. It adds one Chat row with the
  identifier, owner and title given, created now.
\<close>

definition saveChat :: "string \<Rightarrow> string \<Rightarrow> string \<Rightarrow> state \<Rightarrow> error + state" where
  "saveChat i uid t st =
     (if db_available st
      then Inr (st\<lparr>chat_rows := chat_rows st @
             [\<lparr>chat_id = i, chat_userId = uid, chat_title = t, chat_createdAt = clock st\<rparr>]\<rparr>)
      else Inl PersistenceError)"

text \<open>
  Modelled from the spec: \<^verbatim>\<open>saveMessages\<close> is missing. It adds the Message rows
  given, in order.
\<close>

definition saveMessages :: "message list \<Rightarrow> state \<Rightarrow> error + state" where
  "saveMessages ms st =
     (if db_available st then Inr (st\<lparr>message_rows := message_rows st @ ms\<rparr>)
      else Inl PersistenceError)"

text \<open>
  Modelled from the spec: \<^verbatim>\<open>deleteChatById\<close> is missing. It "deletes all rows for
  that chat": its messages and the Chat row.
\<close>

definition deleteChatById :: "string \<Rightarrow> state \<Rightarrow> error + state" where
  "deleteChatById i st =
     (if db_available st
      then Inr (st\<lparr>message_rows := filter (\<lambda>m. msg_chatId m \<noteq> i) (message_rows st),
                   chat_rows := filter (\<lambda>c. chat_id c \<noteq> i) (chat_rows st)\<rparr>)
      else Inl PersistenceError)"

text \<open>
  Modelled from the spec: \<^verbatim>\<open>getDocumentById\<close> is missing. It yields the Document
  with the identifier, or nothing.
\<close>

definition getDocumentById :: "string \<Rightarrow> state \<Rightarrow> error + document option" where
  "getDocumentById i st =
     (if db_available st then Inr (find (\<lambda>d. doc_id d = i) (document_rows st))
      else Inl PersistenceError)"

text \<open>
  Modelled from the spec: \<^verbatim>\<open>saveDocument\<close> is missing. Called with
  \<^verbatim>\<open>{id, title, kind, content, userId}\<close> by both document tools, it adds a new row,
  created now, when no document has the identifier, and overwrites the row in place
  with what it is given when one has.
\<close>

definition overwrite :: "string \<Rightarrow> string \<Rightarrow> kind \<Rightarrow> string \<Rightarrow> string \<Rightarrow> document \<Rightarrow> document" where
  "overwrite i t k c uid d =
     (if doc_id d = i
      then d\<lparr>doc_title := t, doc_kind := k, doc_content := c, doc_userId := uid\<rparr>
      else d)"

definition saveDocument :: "string \<Rightarrow> string \<Rightarrow> kind \<Rightarrow> string \<Rightarrow> string \<Rightarrow> state \<Rightarrow> error + state" where
  "saveDocument i t k c uid st =
     (if db_available st
      then (case find (\<lambda>d. doc_id d = i) (document_rows st) of
              None \<Rightarrow> Inr (st\<lparr>document_rows := document_rows st @
                        [\<lparr>doc_id = i, doc_createdAt = clock st, doc_title = t,
                          doc_content = c, doc_kind = k, doc_userId = uid\<rparr>]\<rparr>)
            | Some d \<Rightarrow> Inr (st\<lparr>document_rows := map (overwrite i t k c uid) (document_rows st)\<rparr>))
      else Inl PersistenceError)"

text \<open>
  Modelled from the spec: \<^verbatim>\<open>saveSuggestions\<close> is missing. It adds the Suggestion
  rows given, in one batch.
\<close>

definition saveSuggestions :: "suggestion list \<Rightarrow> state \<Rightarrow> error + state" where
  "saveSuggestions ss st =
     (if db_available st then Inr (st\<lparr>suggestion_rows := suggestion_rows st @ ss\<rparr>)
      else Inl PersistenceError)"

section \<open>The route\<close>

definition writeData :: "string \<Rightarrow> data_content \<Rightarrow> state \<Rightarrow> state" where
  "writeData t c st = st\<lparr>dataStream := dataStream st @ [WriteData t c]\<rparr>"

definition writeMessageAnnotation :: "string \<Rightarrow> state \<Rightarrow> state" where
  "writeMessageAnnotation i st = st\<lparr>dataStream := dataStream st @ [WriteMessageAnnotation i]\<rparr>"

text \<open>\<^verbatim>\<open>session.user?.id\<close> when it is truthy: a user with a non-empty id.\<close>

definition session_user_id :: "session \<Rightarrow> string option" where
  "session_user_id s =
     (case session_user s of
        None \<Rightarrow> None
      | Some u \<Rightarrow> (case user_id u of None \<Rightarrow> None | Some i \<Rightarrow> if i = [] then None else Some i))"

subsection \<open>The two loops over a fullStream\<close>

text \<open>
  \<^verbatim>\<open>for await (const delta of fullStream)\<close>, as written in \<^verbatim>\<open>createDocument\<close> and
  again, with the same body, in \<^verbatim>\<open>updateDocument\<close>. For text, a \<^verbatim>\<open>text-delta\<close> is
  appended to the draft and forwarded. For code, an \<^verbatim>\<open>object\<close> part whose
  \<^verbatim>\<open>code\<close> is truthy is forwarded whole and becomes the draft.
\<close>

fun text_loop :: "delta list \<Rightarrow> string \<Rightarrow> state \<Rightarrow> string \<times> state" where
  "text_loop [] draftText st = (draftText, st)"
| "text_loop (TextDelta textDelta # ds) draftText st =
     text_loop ds (draftText @ textDelta) (writeData ''text-delta'' (Str textDelta) st)"
| "text_loop (d # ds) draftText st = text_loop ds draftText st"

fun code_loop :: "delta list \<Rightarrow> string \<Rightarrow> state \<Rightarrow> string \<times> state" where
  "code_loop [] draftText st = (draftText, st)"
| "code_loop (ObjectDelta (Some code) # ds) draftText st =
     (if code \<noteq> [] then code_loop ds code (writeData ''code-delta'' (Str code) st)
      else code_loop ds draftText st)"
| "code_loop (d # ds) draftText st = code_loop ds draftText st"

subsection \<open>The tools\<close>

definition getWeather :: "int \<Rightarrow> int \<Rightarrow> string \<Rightarrow> state \<Rightarrow> (error + tool_result) \<times> state" where
  "getWeather latitude longitude weatherData st = (Inr (WeatherResult weatherData), st)"

definition createDocument ::
  "env \<Rightarrow> session \<Rightarrow> model \<Rightarrow> string \<Rightarrow> kind \<Rightarrow> state \<Rightarrow> (error + tool_result) \<times> state" where
  "createDocument env session model title kind st =
     (let (docId, st1) = generateUUID st;
          st2 = writeData ''id'' (Str docId) st1;
          st3 = writeData ''title'' (Str title) st2;
          st4 = writeData ''kind'' (Str (kind_name kind)) st3;
          st5 = writeData ''clear'' (Str []) st4;
          (draftText, st6) =
            (case kind of
               KText \<Rightarrow>
                 (let (d, s) = text_loop (streamText env
                        \<lparr>gen_model = apiIdentifier model,
                         gen_system = ''Write about the given topic. Markdown is supported. Use headings wherever appropriate.'',
                         gen_prompt = title, gen_prediction = None\<rparr>) [] st5
                  in (d, writeData ''finish'' (Str []) s))
             | KCode \<Rightarrow>
                 (let (d, s) = code_loop (streamObject env
                        \<lparr>gen_model = apiIdentifier model, gen_system = codePrompt env,
                         gen_prompt = title, gen_prediction = None\<rparr>) [] st5
                  in (d, writeData ''finish'' (Str []) s)));
          result = DocumentResult docId title kind
                     ''A document was created and is now visible to the user.''
      in (case session_user_id session of
            None \<Rightarrow> (Inr result, st6)
          | Some userId \<Rightarrow>
              (case saveDocument docId title kind draftText userId st6 of
                 Inl e \<Rightarrow> (Inl e, st6)
               | Inr st7 \<Rightarrow> (Inr result, st7))))"

definition updateDocument ::
  "env \<Rightarrow> session \<Rightarrow> model \<Rightarrow> string \<Rightarrow> string \<Rightarrow> state \<Rightarrow> (error + tool_result) \<times> state" where
  "updateDocument env session model docId changes st =
     (case getDocumentById docId st of
        Inl e \<Rightarrow> (Inl e, st)
      | Inr None \<Rightarrow> (Inr (ErrorResult ''Document not found''), st)
      | Inr (Some document) \<Rightarrow>
          (let currentContent = doc_content document;
               st1 = writeData ''clear'' (Str (doc_title document)) st;
               (draftText, st2) =
                 (case doc_kind document of
                    KText \<Rightarrow>
                      (let (d, s) = text_loop (streamText env
                             \<lparr>gen_model = apiIdentifier model,
                              gen_system = updateDocumentPrompt env currentContent KText,
                              gen_prompt = changes, gen_prediction = Some currentContent\<rparr>) [] st1
                       in (d, writeData ''finish'' (Str []) s))
                  | KCode \<Rightarrow>
                      (let (d, s) = code_loop (streamObject env
                             \<lparr>gen_model = apiIdentifier model,
                              gen_system = updateDocumentPrompt env currentContent KCode,
                              gen_prompt = changes, gen_prediction = None\<rparr>) [] st1
                       in (d, writeData ''finish'' (Str []) s)));
               result = DocumentResult docId (doc_title document) (doc_kind document)
                          ''The document has been updated successfully.''
           in (case session_user_id session of
                 None \<Rightarrow> (Inr result, st2)
               | Some userId \<Rightarrow>
                   (case saveDocument docId (doc_title document) (doc_kind document)
                           draftText userId st2 of
                      Inl e \<Rightarrow> (Inl e, st2)
                    | Inr st3 \<Rightarrow> (Inr result, st3)))))"

text \<open>\<^verbatim>\<open>for await (const element of elementStream)\<close> of \<^verbatim>\<open>requestSuggestions\<close>.\<close>

fun suggestion_loop ::
  "string \<Rightarrow> element list \<Rightarrow> suggestion_draft list \<Rightarrow> state \<Rightarrow> suggestion_draft list \<times> state" where
  "suggestion_loop documentId [] suggestions st = (suggestions, st)"
| "suggestion_loop documentId (el # els) suggestions st =
     (let (i, st1) = generateUUID st;
          suggestion = \<lparr>sd_originalText = originalSentence el,
                        sd_suggestedText = suggestedSentence el,
                        sd_description = el_description el,
                        sd_id = i, sd_documentId = documentId, sd_isResolved = False\<rparr>;
          st2 = writeData ''suggestion'' (SuggestionContent suggestion) st1
      in suggestion_loop documentId els (suggestions @ [suggestion]) st2)"

definition suggestions_system :: string where
  "suggestions_system = ''You are a help writing assistant. Given a piece of writing, please offer suggestions to improve the piece of writing and describe the change. It is very important for the edits to contain full sentences instead of just words. Max 5 suggestions.''"

definition requestSuggestions ::
  "env \<Rightarrow> session \<Rightarrow> model \<Rightarrow> string \<Rightarrow> state \<Rightarrow> (error + tool_result) \<times> state" where
  "requestSuggestions env session model documentId st =
     (case getDocumentById documentId st of
        Inl e \<Rightarrow> (Inl e, st)
      | Inr None \<Rightarrow> (Inr (ErrorResult ''Document not found''), st)
      | Inr (Some document) \<Rightarrow>
          (if doc_content document = [] then (Inr (ErrorResult ''Document not found''), st)
           else
             (let (suggestions, st1) = suggestion_loop documentId (elementStream env
                     \<lparr>gen_model = apiIdentifier model, gen_system = suggestions_system,
                      gen_prompt = doc_content document, gen_prediction = None\<rparr>) [] st;
                  result = SuggestionsResult documentId (doc_title document) (doc_kind document)
                             ''Suggestions have been added to the document''
              in (case session_user_id session of
                    None \<Rightarrow> (Inr result, st1)
                  | Some userId \<Rightarrow>
                      (case saveSuggestions
                              (map (\<lambda>suggestion.
                                      \<lparr>sug_draft = suggestion, sug_userId = userId,
                                       sug_createdAt = clock st1,
                                       sug_documentCreatedAt = doc_createdAt document\<rparr>)
                                   suggestions) st1 of
                         Inl e \<Rightarrow> (Inl e, st1)
                       | Inr st2 \<Rightarrow> (Inr result, st2))))))"

subsection \<open>onFinish\<close>

text \<open>
  The callback of \<^verbatim>\<open>.map\<close> inside \<^verbatim>\<open>onFinish\<close>, message by message: a fresh
  identifier, an annotation when the role is assistant, and the row to save. It runs to
  the end before \<^verbatim>\<open>saveMessages\<close> is called.
\<close>

fun message_rows_of :: "string \<Rightarrow> core_message list \<Rightarrow> state \<Rightarrow> message list \<times> state" where
  "message_rows_of chatId [] st = ([], st)"
| "message_rows_of chatId (m # ms) st =
     (let (messageId, st1) = generateUUID st;
          st2 = (if role m = Assistant then writeMessageAnnotation messageId st1 else st1);
          row = \<lparr>msg_id = messageId, msg_chatId = chatId, msg_role = role m,
                 msg_content = content m, msg_createdAt = clock st2\<rparr>;
          (rows, st3) = message_rows_of chatId ms st2
      in (row # rows, st3))"

text \<open>The body of the \<^verbatim>\<open>try\<close> block: what it throws, and the state it leaves.\<close>

definition onFinish_try :: "string \<Rightarrow> core_message list \<Rightarrow> state \<Rightarrow> (error + unit) \<times> state" where
  "onFinish_try chatId messages st =
     (let responseMessagesWithoutIncompleteToolCalls = sanitizeResponseMessages messages;
          (rows, st1) = message_rows_of chatId responseMessagesWithoutIncompleteToolCalls st
      in (case saveMessages rows st1 of
            Inl e \<Rightarrow> (Inl e, st1)
          | Inr st2 \<Rightarrow> (Inr (), st2)))"

definition onFinish :: "session \<Rightarrow> string \<Rightarrow> core_message list \<Rightarrow> state \<Rightarrow> state" where
  "onFinish session chatId messages st =
     (case session_user_id session of
        None \<Rightarrow> st
      | Some userId \<Rightarrow>
          (case onFinish_try chatId messages st of
             (Inl e, st1) \<Rightarrow> st1\<lparr>console_errors := console_errors st1 @ [''Failed to save chat'']\<rparr>
           | (Inr u, st1) \<Rightarrow> st1))"

subsection \<open>The streaming response\<close>

fun run_tool :: "env \<Rightarrow> session \<Rightarrow> model \<Rightarrow> tool_call \<Rightarrow> state \<Rightarrow> (error + tool_result) \<times> state" where
  "run_tool env session model (GetWeather latitude longitude weatherData) st =
     getWeather latitude longitude weatherData st"
| "run_tool env session model (CreateDocument title kind) st =
     createDocument env session model title kind st"
| "run_tool env session model (UpdateDocument docId changes) st =
     updateDocument env session model docId changes st"
| "run_tool env session model (RequestSuggestions documentId) st =
     requestSuggestions env session model documentId st"

text \<open>
  Modelled from the spec: how the top-level \<^verbatim>\<open>streamText\<close> of the SDK schedules the
  tool callbacks the route hands to it is missing (the SDK is not part of the
  repository). The spec (section 5): "Sub-generations invoked by tools are always awaited
  fully (sequentially) before the tool returns", there is "no parallel tool execution
  within one turn, and no tool begins before the previous model-generation segment
  halts". So text is forwarded, a tool call runs the tool to its end before the next
  action, and a tool that throws shows as an error part. The route itself does not
  enforce this order: the tools are async callbacks over one shared \<^verbatim>\<open>dataStream\<close>.
  The theorems about \<^verbatim>\<open>POST\<close> use of this function only what holds under every
  scheduling: each step appends to the stream and to the Message table and keeps the Chat
  table.
\<close>

fun run_actions :: "env \<Rightarrow> session \<Rightarrow> model \<Rightarrow> action list \<Rightarrow> state \<Rightarrow> state" where
  "run_actions env session model [] st = st"
| "run_actions env session model (Say t # acts) st =
     run_actions env session model acts (st\<lparr>dataStream := dataStream st @ [ModelText t]\<rparr>)"
| "run_actions env session model (Call c # acts) st =
     (case run_tool env session model c st of
        (Inl e, st1) \<Rightarrow>
          run_actions env session model acts (st1\<lparr>dataStream := dataStream st1 @ [ModelError]\<rparr>)
      | (Inr r, st1) \<Rightarrow> run_actions env session model acts st1)"

text \<open>
  \<^verbatim>\<open>maxSteps: 5\<close>: the top-level generation runs at most five rounds (the spec: "up
  to a bounded number of sequential tool-invocation rounds (five)").
\<close>

definition maxSteps :: nat where
  "maxSteps = 5"

text \<open>The \<^verbatim>\<open>execute\<close> callback handed to \<^verbatim>\<open>createDataStreamResponse\<close>.\<close>

definition execute ::
  "env \<Rightarrow> session \<Rightarrow> model \<Rightarrow> string \<Rightarrow> core_message list \<Rightarrow> string \<Rightarrow> state \<Rightarrow> state" where
  "execute env session model chatId coreMessages userMessageId st =
     (let st1 = writeData ''user-message-id'' (Str userMessageId) st;
          st2 = run_actions env session model
                  (concat (take maxSteps
                     (steps env (apiIdentifier model) (systemPrompt env) coreMessages))) st1
      in onFinish session chatId
           (responseMessages env (apiIdentifier model) (systemPrompt env) coreMessages) st2)"

definition createDataStreamResponse :: "(state \<Rightarrow> state) \<Rightarrow> state \<Rightarrow> response \<times> state" where
  "createDataStreamResponse exec st =
     (let st1 = exec (st\<lparr>dataStream := []\<rparr>) in (StreamResponse (dataStream st1), st1))"

subsection \<open>POST\<close>

text \<open>
  Lines 110 to 127 of \<^verbatim>\<open>POST\<close>: get or create the chat, then save the user message
  under a fresh identifier. The result is that identifier.
\<close>

definition saveUserMessage ::
  "env \<Rightarrow> string \<Rightarrow> string \<Rightarrow> core_message \<Rightarrow> state \<Rightarrow> (error + string) \<times> state" where
  "saveUserMessage env userId chatId userMessage st =
     (case getChatById chatId st of
        Inl e \<Rightarrow> (Inl e, st)
      | Inr chat \<Rightarrow>
          (case (case chat of
                   None \<Rightarrow> saveChat chatId userId (generateTitleFromUserMessage env userMessage) st
                 | Some c \<Rightarrow> Inr st) of
             Inl e \<Rightarrow> (Inl e, st)
           | Inr st1 \<Rightarrow>
               (let (userMessageId, st2) = generateUUID st1
                in (case saveMessages
                           [\<lparr>msg_id = userMessageId, msg_chatId = chatId,
                             msg_role = role userMessage, msg_content = content userMessage,
                             msg_createdAt = clock st2\<rparr>] st2 of
                      Inl e \<Rightarrow> (Inl e, st2)
                    | Inr st3 \<Rightarrow> (Inr userMessageId, st3)))))"

text \<open>
  \<^verbatim>\<open>POST\<close> has no \<^verbatim>\<open>try\<close>: what \<^verbatim>\<open>request.json()\<close> (before the session
  check), \<^verbatim>\<open>convertToCoreMessages\<close> (before the user-message check) or a query throws
  leaves the handler as a rejection.
\<close>

definition POST :: "env \<Rightarrow> http_request \<Rightarrow> state \<Rightarrow> response \<times> state" where
  "POST env request st =
     (case request_json request of
        Inl e \<Rightarrow> (Unhandled e, st)
      | Inr req \<Rightarrow>
     (case auth env of
        None \<Rightarrow> (Response ''Unauthorized'' 401, st)
      | Some session \<Rightarrow>
          (case session_user_id session of
             None \<Rightarrow> (Response ''Unauthorized'' 401, st)
           | Some userId \<Rightarrow>
               (case find (\<lambda>m. model_id m = req_modelId req) (models env) of
                  None \<Rightarrow> (Response ''Model not found'' 404, st)
                | Some model \<Rightarrow>
                    (case convertToCoreMessages env (req_messages req) of
                       Inl e \<Rightarrow> (Unhandled e, st)
                     | Inr coreMessages \<Rightarrow>
                        (case getMostRecentUserMessage coreMessages of
                           None \<Rightarrow> (Response ''No user message found'' 400, st)
                         | Some userMessage \<Rightarrow>
                             (case saveUserMessage env userId (req_id req) userMessage st of
                                (Inl e, st1) \<Rightarrow> (Unhandled e, st1)
                              | (Inr userMessageId, st1) \<Rightarrow>
                                  createDataStreamResponse
                                    (execute env session model (req_id req) coreMessages
                                       userMessageId) st1)))))))"

subsection \<open>DELETE\<close>

text \<open>
  The body of the \<^verbatim>\<open>try\<close> block of \<^verbatim>\<open>DELETE\<close>. \<^verbatim>\<open>chat.userId\<close> is read
  without a check that a chat was found: on \<^verbatim>\<open>undefined\<close> the read throws a
  TypeError.
\<close>

definition DELETE_try :: "string \<Rightarrow> session_user \<Rightarrow> state \<Rightarrow> (error + response) \<times> state" where
  "DELETE_try i user st =
     (case getChatById i st of
        Inl e \<Rightarrow> (Inl e, st)
      | Inr None \<Rightarrow> (Inl TypeError, st)
      | Inr (Some chat) \<Rightarrow>
          (if Some (chat_userId chat) \<noteq> user_id user then (Inr (Response ''Unauthorized'' 401), st)
           else (case deleteChatById i st of
                   Inl e \<Rightarrow> (Inl e, st)
                 | Inr st1 \<Rightarrow> (Inr (Response ''Chat deleted'' 200), st1))))"

text \<open>
  \<^verbatim>\<open>searchParams.get('id')\<close> is the argument: \<^verbatim>\<open>null\<close> when the query has no
  \<^verbatim>\<open>id\<close>; \<^verbatim>\<open>!id\<close> also holds for the empty string.
\<close>

definition DELETE :: "env \<Rightarrow> string option \<Rightarrow> state \<Rightarrow> response \<times> state" where
  "DELETE env idParam st =
     (case idParam of
        None \<Rightarrow> (Response ''Not Found'' 404, st)
      | Some i \<Rightarrow>
          (if i = [] then (Response ''Not Found'' 404, st)
           else (case auth env of
                   None \<Rightarrow> (Response ''Unauthorized'' 401, st)
                 | Some session \<Rightarrow>
                     (case session_user session of
                        None \<Rightarrow> (Response ''Unauthorized'' 401, st)
                      | Some user \<Rightarrow>
                          (case DELETE_try i user st of
                             (Inl e, st1) \<Rightarrow>
                               (Response ''An error occurred while processing your request'' 500, st1)
                           | (Inr r, st1) \<Rightarrow> (r, st1))))))"

section \<open>Functions used to state the theorems\<close>

text \<open>The text deltas of a stream, and the code values a stream carries (truthy ones).\<close>

fun text_values :: "delta list \<Rightarrow> string list" where
  "text_values [] = []"
| "text_values (TextDelta t # ds) = t # text_values ds"
| "text_values (d # ds) = text_values ds"

fun code_values :: "delta list \<Rightarrow> string list" where
  "code_values [] = []"
| "code_values (ObjectDelta (Some c) # ds) = (if c \<noteq> [] then c # code_values ds else code_values ds)"
| "code_values (d # ds) = code_values ds"

definition last_or :: "string \<Rightarrow> string list \<Rightarrow> string" where
  "last_or d cs = (if cs = [] then d else last cs)"

text \<open>
  The drafts the suggestion tool builds from the elements \<open>els\<close> when the supply of
  identifiers stands at position \<open>n\<close>: the k-th element gets the identifier at \<open>n + k\<close>.
\<close>

fun drafts_from :: "string \<Rightarrow> (nat \<Rightarrow> string) \<Rightarrow> nat \<Rightarrow> element list \<Rightarrow> suggestion_draft list" where
  "drafts_from documentId src n [] = []"
| "drafts_from documentId src n (el # els) =
     \<lparr>sd_originalText = originalSentence el, sd_suggestedText = suggestedSentence el,
      sd_description = el_description el, sd_id = src n, sd_documentId = documentId,
      sd_isResolved = False\<rparr> # drafts_from documentId src (Suc n) els"

text \<open>The rows \<^verbatim>\<open>onFinish\<close> builds from the messages \<open>ms\<close>, likewise.\<close>

fun rows_from :: "string \<Rightarrow> (nat \<Rightarrow> string) \<Rightarrow> nat \<Rightarrow> nat \<Rightarrow> core_message list \<Rightarrow> message list" where
  "rows_from chatId src n now [] = []"
| "rows_from chatId src n now (m # ms) =
     \<lparr>msg_id = src n, msg_chatId = chatId, msg_role = role m, msg_content = content m,
      msg_createdAt = now\<rparr> # rows_from chatId src (Suc n) now ms"

definition annotations_of :: "message list \<Rightarrow> stream_part list" where
  "annotations_of rows = map (\<lambda>r. WriteMessageAnnotation (msg_id r)) (filter (\<lambda>r. msg_role r = Assistant) rows)"

text \<open>The tool calls of a message that no tool result of \<open>ms\<close> answers.\<close>

definition unanswered_calls :: "core_message list \<Rightarrow> core_message \<Rightarrow> part list" where
  "unanswered_calls ms m =
     (case content m of
        Parts ps \<Rightarrow> filter (\<lambda>p. \<not> answered (concat (map toolResultIds_of ms)) p) ps
      | Text t \<Rightarrow> [])"

text \<open>
  The draft \<^verbatim>\<open>updateDocument\<close> accumulates for a stored document: the text deltas
  joined for kind text, the last code value (or the empty string) for kind code.
\<close>

definition updated_draft :: "env \<Rightarrow> model \<Rightarrow> document \<Rightarrow> string \<Rightarrow> string" where
  "updated_draft env model document changes =
     (case doc_kind document of
        KText \<Rightarrow> concat (text_values (streamText env
                   \<lparr>gen_model = apiIdentifier model,
                    gen_system = updateDocumentPrompt env (doc_content document) KText,
                    gen_prompt = changes, gen_prediction = Some (doc_content document)\<rparr>))
      | KCode \<Rightarrow> last_or [] (code_values (streamObject env
                   \<lparr>gen_model = apiIdentifier model,
                    gen_system = updateDocumentPrompt env (doc_content document) KCode,
                    gen_prompt = changes, gen_prediction = None\<rparr>)))"




text \<open>
  What a step of the streaming phase may do to the state: keep the Chat table, append to
  the Message table, append to the data stream.
\<close>

definition extends :: "state \<Rightarrow> state \<Rightarrow> bool" where
  "extends st st' =
     (chat_rows st' = chat_rows st \<and> prefix (message_rows st) (message_rows st') \<and>
      prefix (dataStream st) (dataStream st'))"

section \<open>A concrete deployment, for evaluating the model\<close>

definition alice :: session where
  "alice = \<lparr>session_user = Some \<lparr>user_id = Some ''alice''\<rparr>\<rparr>"

definition gpt :: model where
  "gpt = \<lparr>model_id = ''gpt-3.5-turbo'', apiIdentifier = ''gpt-3.5-turbo''\<rparr>"

definition uuid_demo :: "nat \<Rightarrow> string" where
  "uuid_demo n = CHR ''u'' # replicate n CHR ''+''"

text \<open>
  A conversion that, like the SDK's, knows the roles system, user and assistant and throws
  on any other, and turns an assistant message with tool invocations into an assistant
  message with the calls and a tool message with the results, throwing when an
  invocation has no result.
\<close>

definition role_demo :: "string \<Rightarrow> role option" where
  "role_demo r =
     (if r = ''system'' then Some System
      else if r = ''user'' then Some User
      else if r = ''assistant'' then Some Assistant
      else None)"

fun call_part :: "tool_invocation \<Rightarrow> part" where
  "call_part (PendingCall i n) = ToolCallPart i n"
| "call_part (CallWithResult i n r) = ToolCallPart i n"

fun result_parts :: "tool_invocation list \<Rightarrow> error + part list" where
  "result_parts [] = Inr []"
| "result_parts (PendingCall i n # ts) = Inl MessageConversionError"
| "result_parts (CallWithResult i n r # ts) =
     (case result_parts ts of Inl e \<Rightarrow> Inl e | Inr ps \<Rightarrow> Inr (ToolResultPart i r # ps))"

definition convert_message_demo :: "ui_message \<Rightarrow> error + core_message list" where
  "convert_message_demo m =
     (case role_demo (ui_role m) of
        None \<Rightarrow> Inl MessageConversionError
      | Some r \<Rightarrow>
          (if r = Assistant \<and> ui_toolInvocations m \<noteq> []
           then (case result_parts (ui_toolInvocations m) of
                   Inl e \<Rightarrow> Inl e
                 | Inr results \<Rightarrow>
                     Inr [\<lparr>role = Assistant,
                           content = Parts (TextPart (ui_content m) #
                                            map call_part (ui_toolInvocations m))\<rparr>,
                          \<lparr>role = Tool, content = Parts results\<rparr>])
           else Inr [\<lparr>role = r, content = Text (ui_content m)\<rparr>]))"

fun convert_demo :: "ui_message list \<Rightarrow> error + core_message list" where
  "convert_demo [] = Inr []"
| "convert_demo (m # ms) =
     (case convert_message_demo m of
        Inl e \<Rightarrow> Inl e
      | Inr cs \<Rightarrow> (case convert_demo ms of Inl e \<Rightarrow> Inl e | Inr rest \<Rightarrow> Inr (cs @ rest)))"

definition response_demo :: "core_message list" where
  "response_demo =
     [\<lparr>role = Assistant, content = Parts [TextPart ''Hi'', ToolCallPart ''call-1'' ''getWeather'',
                                          ToolCallPart ''call-2'' ''createDocument'']\<rparr>,
      \<lparr>role = Tool, content = Parts [ToolResultPart ''call-1'' ''sunny'']\<rparr>]"

definition env_demo :: env where
  "env_demo =
     \<lparr>auth = Some alice,
      models = [gpt],
      convertToCoreMessages = convert_demo,
      generateTitleFromUserMessage = (\<lambda>m. ''A greeting''),
      systemPrompt = ''Be helpful.'',
      codePrompt = ''Write code.'',
      updateDocumentPrompt = (\<lambda>c k. c),
      streamText = (\<lambda>g. [TextDelta ''Hello'', OtherDelta, TextDelta '' world'']),
      streamObject = (\<lambda>g. [ObjectDelta None, ObjectDelta (Some ''pr''), OtherDelta,
                            ObjectDelta (Some ''print(1)'')]),
      elementStream = (\<lambda>g. [\<lparr>originalSentence = ''Old'', suggestedSentence = ''New'',
                              el_description = ''Fresher''\<rparr>,
                             \<lparr>originalSentence = ''text'', suggestedSentence = ''prose'',
                              el_description = ''Precise''\<rparr>]),
      steps = (\<lambda>m s c. [[Say ''Hi'']]),
      responseMessages = (\<lambda>m s c. response_demo)\<rparr>"


definition req_demo :: request where
  "req_demo =
     \<lparr>req_id = ''chat-9'',
      req_messages = [\<lparr>ui_id = ''m-1'', ui_role = ''user'', ui_content = ''Hello'',
                       ui_toolInvocations = []\<rparr>],
      req_modelId = ''gpt-3.5-turbo''\<rparr>"



definition st_demo :: state where
  "st_demo =
     \<lparr>chat_rows = [\<lparr>chat_id = ''chat-1'', chat_userId = ''alice'', chat_title = ''First'',
                     chat_createdAt = 1\<rparr>,
                    \<lparr>chat_id = ''chat-2'', chat_userId = ''bob'', chat_title = ''Second'',
                     chat_createdAt = 2\<rparr>],
      message_rows = [\<lparr>msg_id = ''m-0'', msg_chatId = ''chat-1'', msg_role = User,
                        msg_content = Text ''Hi'', msg_createdAt = 1\<rparr>],
      document_rows = [\<lparr>doc_id = ''doc-1'', doc_createdAt = 3, doc_title = ''Essay'',
                         doc_content = ''Old text'', doc_kind = KText, doc_userId = ''bob''\<rparr>,
                        \<lparr>doc_id = ''doc-2'', doc_createdAt = 4, doc_title = ''Script'',
                         doc_content = [], doc_kind = KCode, doc_userId = ''alice''\<rparr>],
      suggestion_rows = [],
      db_available = True,
      uuid_source = uuid_demo,
      uuid_count = 0,
      clock = 10,
      dataStream = [],
      console_errors = []\<rparr>"

section \<open>Helper lemmas: closed forms\<close>



lemma getMostRecentUserMessage_role:
  "getMostRecentUserMessage ms = Some m \<Longrightarrow> role m = User"
  by (auto simp: getMostRecentUserMessage_def find_Some_iff)

lemma find_append_new:
  "find P xs = None \<Longrightarrow> P x \<Longrightarrow> find P (xs @ [x]) = Some x"
  by (induction xs) (auto split: if_splits)

text \<open>What the two loops compute, in closed form.\<close>

lemma code_loop_eq:
  "code_loop ds draft st =
     (last_or draft (code_values ds),
      st\<lparr>dataStream := dataStream st @ map (\<lambda>c. WriteData ''code-delta'' (Str c)) (code_values ds)\<rparr>)"
  by (induction ds draft st rule: code_loop.induct) (simp_all add: last_or_def writeData_def)

lemma text_loop_eq:
  "text_loop ds draft st =
     (draft @ concat (text_values ds),
      st\<lparr>dataStream := dataStream st @ map (\<lambda>t. WriteData ''text-delta'' (Str t)) (text_values ds)\<rparr>)"
proof (induction ds arbitrary: draft st)
  case Nil
  show ?case by simp
next
  case (Cons d ds)
  show ?case
  proof (cases d)
    case (TextDelta x1)
    have "text_loop (d # ds) draft st =
            text_loop ds (draft @ x1) (writeData ''text-delta'' (Str x1) st)"
      using TextDelta by simp
    also have "\<dots> = ((draft @ x1) @ concat (text_values ds),
      (writeData ''text-delta'' (Str x1) st)\<lparr>dataStream :=
         dataStream (writeData ''text-delta'' (Str x1) st) @
         map (\<lambda>t. WriteData ''text-delta'' (Str t)) (text_values ds)\<rparr>)"
      by (rule Cons.IH)
    finally show ?thesis using TextDelta by (simp add: writeData_def)
  next
    case (ObjectDelta x2)
    then show ?thesis by (simp add: Cons.IH)
  next
    case OtherDelta
    then show ?thesis by (simp add: Cons.IH)
  qed
qed

text \<open>What \<^verbatim>\<open>saveDocument\<close> leaves in the table.\<close>

lemma find_overwrite:
  "find (\<lambda>d. doc_id d = i) rows = Some d \<Longrightarrow>
   find (\<lambda>d. doc_id d = i) (map (overwrite i t k c u) rows) = Some (overwrite i t k c u d)"
proof (induction rows)
  case Nil
  then show ?case by simp
next
  case (Cons a rows)
  show ?case
  proof (cases "doc_id a = i")
    case True
    then have "d = a" using Cons.prems by simp
    moreover have "doc_id (overwrite i t k c u a) = i" using True by (simp add: overwrite_def)
    ultimately show ?thesis by simp
  next
    case False
    then have "doc_id (overwrite i t k c u a) \<noteq> i" by (simp add: overwrite_def)
    moreover have "find (\<lambda>d. doc_id d = i) rows = Some d" using False Cons.prems by simp
    ultimately show ?thesis using Cons.IH by simp
  qed
qed

lemma filter_overwrite:
  "filter (\<lambda>d. doc_id d \<noteq> i) (map (overwrite i t k c u) rows) = filter (\<lambda>d. doc_id d \<noteq> i) rows"
  by (induction rows) (auto simp: overwrite_def)

lemma saveDocument_stored:
  assumes "db_available st"
  shows "\<exists>st' d. saveDocument i t k c u st = Inr st' \<and>
           st' = st\<lparr>document_rows := document_rows st'\<rparr> \<and>
           find (\<lambda>d. doc_id d = i) (document_rows st') = Some d \<and>
           doc_id d = i \<and> doc_title d = t \<and> doc_kind d = k \<and> doc_content d = c \<and>
           doc_userId d = u \<and>
           (\<forall>d0. find (\<lambda>d. doc_id d = i) (document_rows st) = Some d0 \<longrightarrow>
                  doc_createdAt d = doc_createdAt d0) \<and>
           filter (\<lambda>d. doc_id d \<noteq> i) (document_rows st') =
             filter (\<lambda>d. doc_id d \<noteq> i) (document_rows st)"
proof (cases "find (\<lambda>d. doc_id d = i) (document_rows st)")
  case None
  then show ?thesis using assms
    by (simp add: saveDocument_def find_append_new)
next
  case (Some d0)
  then have "doc_id d0 = i" by (auto simp: find_Some_iff)
  with Some show ?thesis using assms
    by (simp add: saveDocument_def find_overwrite filter_overwrite) (simp add: overwrite_def)
qed

text \<open>What the loop of the suggestion tool computes, in closed form.\<close>

lemma suggestion_loop_eq:
  "suggestion_loop documentId els acc st =
     (acc @ drafts_from documentId (uuid_source st) (uuid_count st) els,
      st\<lparr>uuid_count := uuid_count st + length els,
         dataStream := dataStream st @
           map (\<lambda>s. WriteData ''suggestion'' (SuggestionContent s))
             (drafts_from documentId (uuid_source st) (uuid_count st) els)\<rparr>)"
proof (induction els arbitrary: acc st)
  case Nil
  show ?case by simp
next
  case (Cons el els)
  let ?s = "\<lparr>sd_originalText = originalSentence el, sd_suggestedText = suggestedSentence el,
      sd_description = el_description el, sd_id = uuid_source st (uuid_count st),
      sd_documentId = documentId, sd_isResolved = False\<rparr>"
  let ?st2 = "st\<lparr>uuid_count := Suc (uuid_count st),
                dataStream := dataStream st @ [WriteData ''suggestion'' (SuggestionContent ?s)]\<rparr>"
  have "suggestion_loop documentId (el # els) acc st =
          suggestion_loop documentId els (acc @ [?s]) ?st2"
    by (simp add: generateUUID_def writeData_def Let_def)
  also have "\<dots> = ((acc @ [?s]) @ drafts_from documentId (uuid_source ?st2) (uuid_count ?st2) els,
      ?st2\<lparr>uuid_count := uuid_count ?st2 + length els,
         dataStream := dataStream ?st2 @
           map (\<lambda>s. WriteData ''suggestion'' (SuggestionContent s))
             (drafts_from documentId (uuid_source ?st2) (uuid_count ?st2) els)\<rparr>)"
    by (rule Cons.IH)
  finally show ?case by simp
qed

lemma length_drafts_from: "length (drafts_from documentId src n els) = length els"
  by (induction els arbitrary: n) simp_all

lemma drafts_from_documentId:
  "list_all (\<lambda>s. sd_documentId s = documentId) (drafts_from documentId src n els)"
  by (induction els arbitrary: n) simp_all

lemma drafts_from_order:
  "map (\<lambda>s. (sd_originalText s, sd_suggestedText s, sd_description s)) (drafts_from documentId src n els) =
   map (\<lambda>e. (originalSentence e, suggestedSentence e, el_description e)) els"
  by (induction els arbitrary: n) simp_all

text \<open>What the \<^verbatim>\<open>.map\<close> callback of \<^verbatim>\<open>onFinish\<close> computes, in closed form.\<close>

lemma annotations_of_Cons:
  "annotations_of (r # rows) =
     (if msg_role r = Assistant then [WriteMessageAnnotation (msg_id r)] else []) @
     annotations_of rows"
  by (simp add: annotations_of_def)

lemma message_rows_of_eq:
  "message_rows_of chatId ms st =
     (rows_from chatId (uuid_source st) (uuid_count st) (clock st) ms,
      st\<lparr>uuid_count := uuid_count st + length ms,
         dataStream := dataStream st @
           annotations_of (rows_from chatId (uuid_source st) (uuid_count st) (clock st) ms)\<rparr>)"
proof (induction ms arbitrary: st)
  case Nil
  show ?case by (simp add: annotations_of_def)
next
  case (Cons m ms)
  let ?st2 = "st\<lparr>uuid_count := Suc (uuid_count st),
                dataStream := dataStream st @
                  (if role m = Assistant
                   then [WriteMessageAnnotation (uuid_source st (uuid_count st))] else [])\<rparr>"
  let ?row = "\<lparr>msg_id = uuid_source st (uuid_count st), msg_chatId = chatId, msg_role = role m,
                msg_content = content m, msg_createdAt = clock st\<rparr>"
  have "message_rows_of chatId (m # ms) st =
          (?row # fst (message_rows_of chatId ms ?st2), snd (message_rows_of chatId ms ?st2))"
    by (simp add: generateUUID_def writeMessageAnnotation_def Let_def split: prod.splits)
  also have "message_rows_of chatId ms ?st2 =
     (rows_from chatId (uuid_source ?st2) (uuid_count ?st2) (clock ?st2) ms,
      ?st2\<lparr>uuid_count := uuid_count ?st2 + length ms,
         dataStream := dataStream ?st2 @
           annotations_of (rows_from chatId (uuid_source ?st2) (uuid_count ?st2) (clock ?st2) ms)\<rparr>)"
    by (rule Cons.IH)
  finally show ?case by (simp add: annotations_of_Cons)
qed

lemma rows_from_ids: "map msg_id (rows_from chatId src n now ms) = map src [n ..< n + length ms]"
  by (induction ms arbitrary: n) (simp_all add: upt_rec)

lemma rows_from_contents:
  "map (\<lambda>r. (msg_role r, msg_content r, msg_chatId r)) (rows_from chatId src n now ms) =
   map (\<lambda>m. (role m, content m, chatId)) ms"
  by (induction ms arbitrary: n) simp_all

text \<open>What \<^verbatim>\<open>sanitizeResponseMessages\<close> leaves.\<close>

lemma unanswered_calls_sanitize_message:
  "unanswered_calls ms (sanitize_message (concat (map toolResultIds_of ms)) m) =
     (if role m = Assistant then [] else unanswered_calls ms m)"
  by (cases "content m") (simp_all add: unanswered_calls_def sanitize_message_def)

lemma role_sanitize_message: "role (sanitize_message ids m) = role m"
  by (cases "content m") (simp_all add: sanitize_message_def)

lemma sanitize_strips:
  "list_all (\<lambda>m. role m \<noteq> Assistant \<or> unanswered_calls ms m = []) (sanitizeResponseMessages ms)"
  by (simp add: sanitizeResponseMessages_def list_all_iff unanswered_calls_sanitize_message
      role_sanitize_message)

section \<open>Helper lemmas: what the streaming phase leaves alone\<close>

lemma extends_refl: "extends st st"
  by (simp add: extends_def)

lemma extends_trans: "extends a b \<Longrightarrow> extends b c \<Longrightarrow> extends a c"
  by (auto simp: extends_def)

lemma saveDocument_frame:
  "saveDocument i t k c u st = Inr st' \<Longrightarrow>
   chat_rows st' = chat_rows st \<and> message_rows st' = message_rows st \<and>
   dataStream st' = dataStream st"
  by (auto simp: saveDocument_def split: if_splits option.splits)

lemma saveSuggestions_frame:
  "saveSuggestions ss st = Inr st' \<Longrightarrow>
   chat_rows st' = chat_rows st \<and> message_rows st' = message_rows st \<and>
   dataStream st' = dataStream st"
  by (auto simp: saveSuggestions_def split: if_splits)

lemma createDocument_extends:
  "createDocument env session model title kind st = (r, st') \<Longrightarrow> extends st st'"
  by (cases kind)
     (auto simp: createDocument_def generateUUID_def writeData_def text_loop_eq code_loop_eq
        Let_def extends_def split: option.splits sum.splits dest!: saveDocument_frame)

lemma updateDocument_extends:
  "updateDocument env session model docId changes st = (r, st') \<Longrightarrow> extends st st'"
  by (auto simp: updateDocument_def writeData_def text_loop_eq code_loop_eq
        Let_def extends_def split: option.splits sum.splits kind.splits
        dest!: saveDocument_frame)

lemma requestSuggestions_extends:
  "requestSuggestions env session model documentId st = (r, st') \<Longrightarrow> extends st st'"
  by (auto simp: requestSuggestions_def suggestion_loop_eq
        Let_def extends_def split: option.splits sum.splits if_splits
        dest!: saveSuggestions_frame)

lemma run_tool_extends:
  "run_tool env session model c st = (r, st') \<Longrightarrow> extends st st'"
  by (cases c)
     (auto simp: getWeather_def extends_refl
        dest: createDocument_extends updateDocument_extends requestSuggestions_extends)

lemma run_actions_extends: "extends st (run_actions env session model acts st)"
proof (induction acts arbitrary: st)
  case Nil
  show ?case by (simp add: extends_refl)
next
  case (Cons a acts)
  show ?case
  proof (cases a)
    case (Say t)
    have "extends st (st\<lparr>dataStream := dataStream st @ [ModelText t]\<rparr>)"
      by (simp add: extends_def)
    then show ?thesis using Say Cons.IH extends_trans by fastforce
  next
    case (Call c)
    obtain r st1 where t: "run_tool env session model c st = (r, st1)"
      by (cases "run_tool env session model c st")
    have e1: "extends st st1" using t by (rule run_tool_extends)
    show ?thesis
    proof (cases r)
      case (Inl e)
      have "extends st1 (st1\<lparr>dataStream := dataStream st1 @ [ModelError]\<rparr>)"
        by (simp add: extends_def)
      then have "extends st (st1\<lparr>dataStream := dataStream st1 @ [ModelError]\<rparr>)"
        using e1 extends_trans by blast
      then show ?thesis using Call t Inl Cons.IH extends_trans by fastforce
    next
      case (Inr res)
      then show ?thesis using Call t e1 Cons.IH extends_trans by fastforce
    qed
  qed
qed

lemma onFinish_extends: "extends st (onFinish session chatId messages st)"
  by (auto simp: onFinish_def onFinish_try_def message_rows_of_eq saveMessages_def Let_def
      extends_def split: option.splits)

lemma execute_extends:
  "\<exists>rest. extends st (execute env session model chatId coreMessages userMessageId st) \<and>
     dataStream (execute env session model chatId coreMessages userMessageId st) =
       dataStream st @ WriteData ''user-message-id'' (Str userMessageId) # rest"
proof -
  let ?st1 = "writeData ''user-message-id'' (Str userMessageId) st"
  let ?st2 = "run_actions env session model
                  (concat (take maxSteps
                     (steps env (apiIdentifier model) (systemPrompt env) coreMessages))) ?st1"
  let ?st3 = "onFinish session chatId
           (responseMessages env (apiIdentifier model) (systemPrompt env) coreMessages) ?st2"
  have e: "execute env session model chatId coreMessages userMessageId st = ?st3"
    by (simp add: execute_def Let_def)
  have 1: "extends st ?st1" by (simp add: extends_def writeData_def)
  have 2: "extends ?st1 ?st2" by (rule run_actions_extends)
  have 3: "extends ?st2 ?st3" by (rule onFinish_extends)
  have 13: "extends ?st1 ?st3" using 2 3 by (rule extends_trans)
  then have "prefix (dataStream st @ [WriteData ''user-message-id'' (Str userMessageId)])
               (dataStream ?st3)"
    by (simp add: extends_def writeData_def)
  then obtain rest where
    "dataStream ?st3 = (dataStream st @ [WriteData ''user-message-id'' (Str userMessageId)]) @ rest"
    by (auto simp: prefix_def)
  moreover have "extends st ?st3" using 1 13 by (rule extends_trans)
  ultimately show ?thesis unfolding e by auto
qed

section \<open>Helper lemmas: the accepting path of POST\<close>

lemma saveUserMessage_new_chat:
  assumes "db_available st" and "find (\<lambda>c. chat_id c = chatId) (chat_rows st) = None"
  shows "saveUserMessage env userId chatId userMessage st =
     (Inr (uuid_source st (uuid_count st)),
      st\<lparr>chat_rows := chat_rows st @
           [\<lparr>chat_id = chatId, chat_userId = userId,
             chat_title = generateTitleFromUserMessage env userMessage,
             chat_createdAt = clock st\<rparr>],
         uuid_count := Suc (uuid_count st),
         message_rows := message_rows st @
           [\<lparr>msg_id = uuid_source st (uuid_count st), msg_chatId = chatId,
             msg_role = role userMessage, msg_content = content userMessage,
             msg_createdAt = clock st\<rparr>]\<rparr>)"
  using assms
  by (simp add: saveUserMessage_def getChatById_def saveChat_def generateUUID_def
      saveMessages_def)

lemma saveUserMessage_existing_chat:
  assumes "db_available st" and "find (\<lambda>c. chat_id c = chatId) (chat_rows st) = Some c"
  shows "saveUserMessage env userId chatId userMessage st =
     (Inr (uuid_source st (uuid_count st)),
      st\<lparr>uuid_count := Suc (uuid_count st),
         message_rows := message_rows st @
           [\<lparr>msg_id = uuid_source st (uuid_count st), msg_chatId = chatId,
             msg_role = role userMessage, msg_content = content userMessage,
             msg_createdAt = clock st\<rparr>]\<rparr>)"
  using assms
  by (simp add: saveUserMessage_def getChatById_def generateUUID_def saveMessages_def)

lemma POST_accepts:
  assumes "auth env = Some session" and "session_user_id session = Some userId"
    and "find (\<lambda>m. model_id m = req_modelId req) (models env) = Some model"
    and "convertToCoreMessages env (req_messages req) = Inr coreMessages"
    and "getMostRecentUserMessage coreMessages = Some userMessage"
  shows "POST env (JsonBody req) st =
     (case saveUserMessage env userId (req_id req) userMessage st of
        (Inl e, st1) \<Rightarrow> (Unhandled e, st1)
      | (Inr userMessageId, st1) \<Rightarrow>
          createDataStreamResponse
            (execute env session model (req_id req) coreMessages userMessageId) st1)"
  using assms by (simp add: POST_def)

text \<open>The response of the streaming phase, started on a state \<open>st1\<close>.\<close>

lemma createDataStreamResponse_execute:
  "\<exists>rest st' later.
     createDataStreamResponse
       (execute env session model chatId coreMessages userMessageId) st1 =
       (StreamResponse (WriteData ''user-message-id'' (Str userMessageId) # rest), st') \<and>
     chat_rows st' = chat_rows st1 \<and>
     message_rows st' = message_rows st1 @ later"
proof -
  let ?st0 = "st1\<lparr>dataStream := []\<rparr>"
  let ?st' = "execute env session model chatId coreMessages userMessageId ?st0"
  from execute_extends [of ?st0 env session model chatId coreMessages userMessageId]
  obtain rest where e: "extends ?st0 ?st'"
    and d: "dataStream ?st' = WriteData ''user-message-id'' (Str userMessageId) # rest"
    by auto
  from e obtain later where "message_rows ?st' = message_rows st1 @ later"
    by (auto simp: extends_def prefix_def)
  moreover have "chat_rows ?st' = chat_rows st1" using e by (simp add: extends_def)
  ultimately show ?thesis using d by (simp add: createDataStreamResponse_def Let_def)
qed

text \<open>
  A request that passes the guards is answered by the streaming phase, started on a
  state that holds the user's message as the last Message row.
\<close>

lemma POST_streams:
  assumes "auth env = Some session" and "session_user_id session = Some userId"
    and "find (\<lambda>m. model_id m = req_modelId req) (models env) = Some model"
    and "convertToCoreMessages env (req_messages req) = Inr coreMessages"
    and "getMostRecentUserMessage coreMessages = Some userMessage"
    and "db_available st"
  shows "\<exists>st1.
     POST env (JsonBody req) st =
       createDataStreamResponse
         (execute env session model (req_id req) coreMessages
            (uuid_source st (uuid_count st))) st1 \<and>
     message_rows st1 = message_rows st @
       [\<lparr>msg_id = uuid_source st (uuid_count st), msg_chatId = req_id req,
         msg_role = role userMessage, msg_content = content userMessage,
         msg_createdAt = clock st\<rparr>]"
proof (cases "find (\<lambda>c. chat_id c = req_id req) (chat_rows st)")
  case None
  let ?st1 = "st\<lparr>chat_rows := chat_rows st @
           [\<lparr>chat_id = req_id req, chat_userId = userId,
             chat_title = generateTitleFromUserMessage env userMessage,
             chat_createdAt = clock st\<rparr>],
         uuid_count := Suc (uuid_count st),
         message_rows := message_rows st @
           [\<lparr>msg_id = uuid_source st (uuid_count st), msg_chatId = req_id req,
             msg_role = role userMessage, msg_content = content userMessage,
             msg_createdAt = clock st\<rparr>]\<rparr>"
  show ?thesis
    unfolding POST_accepts [OF assms(1-5)] saveUserMessage_new_chat [OF assms(6) None]
    by (rule exI [of _ ?st1]) simp
next
  case (Some c)
  let ?st1 = "st\<lparr>uuid_count := Suc (uuid_count st),
         message_rows := message_rows st @
           [\<lparr>msg_id = uuid_source st (uuid_count st), msg_chatId = req_id req,
             msg_role = role userMessage, msg_content = content userMessage,
             msg_createdAt = clock st\<rparr>]\<rparr>"
  show ?thesis
    unfolding POST_accepts [OF assms(1-5)] saveUserMessage_existing_chat [OF assms(6) Some]
    by (rule exI [of _ ?st1]) simp
qed

section \<open>POST: the guards\<close>




section \<open>DELETE\<close>

text \<open>
  A requester who is not the owner of the stored chat gets 401 and nothing changes.
\<close>

lemma DELETE_non_owner:
  assumes "i \<noteq> []" "auth env = Some s" "session_user s = Some u" "db_available st"
    and "find (\<lambda>c. chat_id c = i) (chat_rows st) = Some c"
    and "user_id u \<noteq> Some (chat_userId c)"
  shows "DELETE env (Some i) st = (Response ''Unauthorized'' 401, st)"
  using assms by (auto simp: DELETE_def DELETE_try_def getChatById_def)

text \<open>The owner gets 200, and the chat and its messages are gone.\<close>

lemma DELETE_owner:
  assumes "i \<noteq> []" "auth env = Some s" "session_user s = Some u" "db_available st"
    and "find (\<lambda>c. chat_id c = i) (chat_rows st) = Some c"
    and "user_id u = Some (chat_userId c)"
  shows "DELETE env (Some i) st =
     (Response ''Chat deleted'' 200,
      st\<lparr>message_rows := filter (\<lambda>m. msg_chatId m \<noteq> i) (message_rows st),
         chat_rows := filter (\<lambda>c. chat_id c \<noteq> i) (chat_rows st)\<rparr>)"
  using assms by (auto simp: DELETE_def DELETE_try_def getChatById_def deleteChatById_def)

text \<open>
  When no chat has the identifier, \<^verbatim>\<open>chat.userId\<close> throws inside the \<^verbatim>\<open>try\<close>
  block and the answer is 500, whoever asks.
\<close>

lemma DELETE_missing_chat:
  assumes "i \<noteq> []" "auth env = Some s" "session_user s = Some u" "db_available st"
    and "find (\<lambda>c. chat_id c = i) (chat_rows st) = None"
  shows "DELETE env (Some i) st =
     (Response ''An error occurred while processing your request'' 500, st)"
  using assms by (auto simp: DELETE_def DELETE_try_def getChatById_def)

text \<open>So a second DELETE by the owner, after the first succeeded, is answered 500.\<close>

lemma DELETE_again:
  assumes "i \<noteq> []" "auth env = Some s" "session_user s = Some u" "db_available st"
    and "find (\<lambda>c. chat_id c = i) (chat_rows st) = Some c"
    and "user_id u = Some (chat_userId c)"
  shows "fst (DELETE env (Some i) (snd (DELETE env (Some i) st))) =
     Response ''An error occurred while processing your request'' 500"
proof -
  let ?st1 = "st\<lparr>message_rows := filter (\<lambda>m. msg_chatId m \<noteq> i) (message_rows st),
         chat_rows := filter (\<lambda>c. chat_id c \<noteq> i) (chat_rows st)\<rparr>"
  have "find (\<lambda>c. chat_id c = i) (chat_rows ?st1) = None"
    by (simp add: find_None_iff)
  moreover have "db_available ?st1" using assms by simp
  ultimately have "DELETE env (Some i) ?st1 =
     (Response ''An error occurred while processing your request'' 500, ?st1)"
    using assms(1-3) by (rule_tac DELETE_missing_chat) auto
  then show ?thesis using DELETE_owner[OF assms] by simp
qed

text \<open>
  C2. The claim: with an id and a valid session, a non-owner gets 401 and nothing
  changes, the owner gets 200 and the chat is deleted, and a second DELETE for the same
  id after a successful one is answered 401 or 404. Evaluated on the demo deployment:
  alice deletes her chat \<^verbatim>\<open>chat-1\<close> (200) and asks again; the second answer is 500.
\<close>

theorem DELETE_twice:
  "fst (DELETE env_demo (Some ''chat-1'') st_demo) = Response ''Chat deleted'' 200 \<and>
   fst (DELETE env_demo (Some ''chat-1'') (snd (DELETE env_demo (Some ''chat-1'') st_demo))) =
     Response ''An error occurred while processing your request'' 500"
  by (simp add: DELETE_def DELETE_try_def getChatById_def deleteChatById_def
      env_demo_def alice_def st_demo_def)

section \<open>The document tools\<close>

text \<open>
  C3. When the document id matches no stored document, \<^verbatim>\<open>updateDocument\<close> returns
  the tool result \<^verbatim>\<open>{error: 'Document not found'}\<close> and the state it was given: no
  event is written to the stream and no document is written.
\<close>

theorem updateDocument_not_found:
  assumes "db_available st" and "docId \<notin> doc_id ` set (document_rows st)"
  shows "updateDocument env session model docId changes st =
           (Inr (ErrorResult ''Document not found''), st)"
proof -
  have "find (\<lambda>d. doc_id d = docId) (document_rows st) = None"
    using assms(2) by (auto simp: find_None_iff)
  then show ?thesis
    using assms(1) by (simp add: updateDocument_def getDocumentById_def)
qed

theorem updateDocument_not_found_witness:
  "db_available st_demo \<and> ''doc-7'' \<notin> doc_id ` set (document_rows st_demo) \<and>
   updateDocument env_demo alice gpt ''doc-7'' ''Shorter.'' st_demo =
     (Inr (ErrorResult ''Document not found''), st_demo)"
proof -
  have a: "db_available st_demo" by (simp add: st_demo_def)
  have b: "''doc-7'' \<notin> doc_id ` set (document_rows st_demo)" by (simp add: st_demo_def)
  show ?thesis using a b updateDocument_not_found [OF a b] by simp
qed




text \<open>
  C5. On a document that exists and has non-empty content (database available, session
  user with an id), \<^verbatim>\<open>requestSuggestions\<close> writes one suggestion event per element
  of the element stream, in the order of the elements, and then saves, in one call of
  \<^verbatim>\<open>saveSuggestions\<close>, one row per element, each with the requested
  \<^verbatim>\<open>documentId\<close> and the document's creation time as \<^verbatim>\<open>documentCreatedAt\<close>. When
  the document is absent or its content is empty, the result is the tool-level error and
  the state is unchanged.
\<close>

theorem requestSuggestions_persists:
  fixes env :: env and model :: model and document :: document and st :: state
    and documentId :: string
  defines "els \<equiv> elementStream env
             \<lparr>gen_model = apiIdentifier model, gen_system = suggestions_system,
              gen_prompt = doc_content document, gen_prediction = None\<rparr>"
  defines "drafts \<equiv> drafts_from documentId (uuid_source st) (uuid_count st) els"
  assumes "db_available st" and "session_user_id session = Some userId"
  shows
   "(find (\<lambda>d. doc_id d = documentId) (document_rows st) = Some document \<and>
     doc_content document \<noteq> [] \<longrightarrow>
       requestSuggestions env session model documentId st =
         (Inr (SuggestionsResult documentId (doc_title document) (doc_kind document)
                 ''Suggestions have been added to the document''),
          st\<lparr>uuid_count := uuid_count st + length els,
             dataStream := dataStream st @
               map (\<lambda>s. WriteData ''suggestion'' (SuggestionContent s)) drafts,
             suggestion_rows := suggestion_rows st @
               map (\<lambda>s. \<lparr>sug_draft = s, sug_userId = userId, sug_createdAt = clock st,
                          sug_documentCreatedAt = doc_createdAt document\<rparr>) drafts\<rparr>) \<and>
       length drafts = length els \<and>
       list_all (\<lambda>s. sd_documentId s = documentId) drafts \<and>
       map (\<lambda>s. (sd_originalText s, sd_suggestedText s, sd_description s)) drafts =
         map (\<lambda>e. (originalSentence e, suggestedSentence e, el_description e)) els) \<and>
    (find (\<lambda>d. doc_id d = documentId) (document_rows st) = None \<or>
     (find (\<lambda>d. doc_id d = documentId) (document_rows st) = Some document \<and>
      doc_content document = []) \<longrightarrow>
       requestSuggestions env session model documentId st =
         (Inr (ErrorResult ''Document not found''), st))"
proof (intro conjI impI)
  assume h: "find (\<lambda>d. doc_id d = documentId) (document_rows st) = Some document \<and>
     doc_content document \<noteq> []"
  then show "requestSuggestions env session model documentId st =
         (Inr (SuggestionsResult documentId (doc_title document) (doc_kind document)
                 ''Suggestions have been added to the document''),
          st\<lparr>uuid_count := uuid_count st + length els,
             dataStream := dataStream st @
               map (\<lambda>s. WriteData ''suggestion'' (SuggestionContent s)) drafts,
             suggestion_rows := suggestion_rows st @
               map (\<lambda>s. \<lparr>sug_draft = s, sug_userId = userId, sug_createdAt = clock st,
                          sug_documentCreatedAt = doc_createdAt document\<rparr>) drafts\<rparr>)"
    using assms(3,4)
    by (simp add: requestSuggestions_def getDocumentById_def suggestion_loop_eq
        saveSuggestions_def els_def drafts_def)
next
  show "length drafts = length els" by (simp add: drafts_def length_drafts_from)
next
  show "list_all (\<lambda>s. sd_documentId s = documentId) drafts"
    by (simp add: drafts_def drafts_from_documentId)
next
  show "map (\<lambda>s. (sd_originalText s, sd_suggestedText s, sd_description s)) drafts =
         map (\<lambda>e. (originalSentence e, suggestedSentence e, el_description e)) els"
    by (simp add: drafts_def drafts_from_order)
next
  assume "find (\<lambda>d. doc_id d = documentId) (document_rows st) = None \<or>
     (find (\<lambda>d. doc_id d = documentId) (document_rows st) = Some document \<and>
      doc_content document = [])"
  then show "requestSuggestions env session model documentId st =
         (Inr (ErrorResult ''Document not found''), st)"
    using assms(3) by (auto simp: requestSuggestions_def getDocumentById_def)
qed

theorem requestSuggestions_persists_witness:
  "db_available st_demo \<and> session_user_id alice = Some ''alice'' \<and>
   requestSuggestions env_demo alice gpt ''doc-1'' st_demo =
     (Inr (SuggestionsResult ''doc-1'' ''Essay'' KText
             ''Suggestions have been added to the document''),
      st_demo\<lparr>uuid_count := 2,
        dataStream :=
          [WriteData ''suggestion'' (SuggestionContent
             \<lparr>sd_originalText = ''Old'', sd_suggestedText = ''New'', sd_description = ''Fresher'',
              sd_id = ''u'', sd_documentId = ''doc-1'', sd_isResolved = False\<rparr>),
           WriteData ''suggestion'' (SuggestionContent
             \<lparr>sd_originalText = ''text'', sd_suggestedText = ''prose'', sd_description = ''Precise'',
              sd_id = ''u+'', sd_documentId = ''doc-1'', sd_isResolved = False\<rparr>)],
        suggestion_rows :=
          [\<lparr>sug_draft =
              \<lparr>sd_originalText = ''Old'', sd_suggestedText = ''New'', sd_description = ''Fresher'',
               sd_id = ''u'', sd_documentId = ''doc-1'', sd_isResolved = False\<rparr>,
            sug_userId = ''alice'', sug_createdAt = 10, sug_documentCreatedAt = 3\<rparr>,
           \<lparr>sug_draft =
              \<lparr>sd_originalText = ''text'', sd_suggestedText = ''prose'', sd_description = ''Precise'',
               sd_id = ''u+'', sd_documentId = ''doc-1'', sd_isResolved = False\<rparr>,
            sug_userId = ''alice'', sug_createdAt = 10, sug_documentCreatedAt = 3\<rparr>]\<rparr>) \<and>
   requestSuggestions env_demo alice gpt ''doc-2'' st_demo =
     (Inr (ErrorResult ''Document not found''), st_demo) \<and>
   requestSuggestions env_demo alice gpt ''doc-7'' st_demo =
     (Inr (ErrorResult ''Document not found''), st_demo)"
proof -
  let ?doc1 = "\<lparr>doc_id = ''doc-1'', doc_createdAt = 3, doc_title = ''Essay'',
                doc_content = ''Old text'', doc_kind = KText, doc_userId = ''bob''\<rparr>"
  let ?doc2 = "\<lparr>doc_id = ''doc-2'', doc_createdAt = 4, doc_title = ''Script'',
                doc_content = [], doc_kind = KCode, doc_userId = ''alice''\<rparr>"
  have a: "db_available st_demo" by (simp add: st_demo_def)
  have b: "session_user_id alice = Some ''alice''" by (simp add: alice_def session_user_id_def)
  have f1: "find (\<lambda>d. doc_id d = ''doc-1'') (document_rows st_demo) = Some ?doc1 \<and>
            doc_content ?doc1 \<noteq> []"
    by (simp add: st_demo_def)
  have f2: "find (\<lambda>d. doc_id d = ''doc-2'') (document_rows st_demo) = None \<or>
            (find (\<lambda>d. doc_id d = ''doc-2'') (document_rows st_demo) = Some ?doc2 \<and>
             doc_content ?doc2 = [])"
    by (simp add: st_demo_def)
  have f7: "find (\<lambda>d. doc_id d = ''doc-7'') (document_rows st_demo) = None \<or>
            (find (\<lambda>d. doc_id d = ''doc-7'') (document_rows st_demo) = Some ?doc2 \<and>
             doc_content ?doc2 = [])"
    by (simp add: st_demo_def)
  have e: "elementStream env_demo
             \<lparr>gen_model = apiIdentifier gpt, gen_system = suggestions_system,
              gen_prompt = doc_content ?doc1, gen_prediction = None\<rparr> =
           [\<lparr>originalSentence = ''Old'', suggestedSentence = ''New'', el_description = ''Fresher''\<rparr>,
            \<lparr>originalSentence = ''text'', suggestedSentence = ''prose'', el_description = ''Precise''\<rparr>]"
    by (simp add: env_demo_def)
  have u: "uuid_source st_demo = uuid_demo" "uuid_count st_demo = 0" "clock st_demo = 10"
    "dataStream st_demo = []" "suggestion_rows st_demo = []"
    by (simp_all add: st_demo_def)
  have 1: "requestSuggestions env_demo alice gpt ''doc-1'' st_demo =
     (Inr (SuggestionsResult ''doc-1'' ''Essay'' KText
             ''Suggestions have been added to the document''),
      st_demo\<lparr>uuid_count := 2,
        dataStream :=
          [WriteData ''suggestion'' (SuggestionContent
             \<lparr>sd_originalText = ''Old'', sd_suggestedText = ''New'', sd_description = ''Fresher'',
              sd_id = ''u'', sd_documentId = ''doc-1'', sd_isResolved = False\<rparr>),
           WriteData ''suggestion'' (SuggestionContent
             \<lparr>sd_originalText = ''text'', sd_suggestedText = ''prose'', sd_description = ''Precise'',
              sd_id = ''u+'', sd_documentId = ''doc-1'', sd_isResolved = False\<rparr>)],
        suggestion_rows :=
          [\<lparr>sug_draft =
              \<lparr>sd_originalText = ''Old'', sd_suggestedText = ''New'', sd_description = ''Fresher'',
               sd_id = ''u'', sd_documentId = ''doc-1'', sd_isResolved = False\<rparr>,
            sug_userId = ''alice'', sug_createdAt = 10, sug_documentCreatedAt = 3\<rparr>,
           \<lparr>sug_draft =
              \<lparr>sd_originalText = ''text'', sd_suggestedText = ''prose'', sd_description = ''Precise'',
               sd_id = ''u+'', sd_documentId = ''doc-1'', sd_isResolved = False\<rparr>,
            sug_userId = ''alice'', sug_createdAt = 10, sug_documentCreatedAt = 3\<rparr>]\<rparr>)"
    using requestSuggestions_persists [OF a b, where env = env_demo and model = gpt
        and documentId = "''doc-1''" and document = ?doc1, THEN conjunct1, rule_format, OF f1,
        THEN conjunct1]
    unfolding e u by (simp add: uuid_demo_def)
  have 2: "requestSuggestions env_demo alice gpt ''doc-2'' st_demo =
     (Inr (ErrorResult ''Document not found''), st_demo)"
    by (rule requestSuggestions_persists [OF a b, where documentId = "''doc-2''"
        and document = ?doc2, THEN conjunct2, rule_format, OF f2])
  have 3: "requestSuggestions env_demo alice gpt ''doc-7'' st_demo =
     (Inr (ErrorResult ''Document not found''), st_demo)"
    by (rule requestSuggestions_persists [OF a b, where documentId = "''doc-7''"
        and document = ?doc2, THEN conjunct2, rule_format, OF f7])
  show ?thesis using a b 1 2 3 by simp
qed

section \<open>onFinish\<close>

text \<open>
  C6. On completion of the top-level stream (session user with an id): the fragments of
  assistant messages that are tool calls without a result are stripped; every remaining
  message is saved as one row under an identifier drawn from the supply at its own
  position (so distinct when the supply does not repeat); one annotation with that
  identifier is written for each assistant message; and when saving fails the error is
  caught, ''Failed to save chat'' is logged, and \<^verbatim>\<open>onFinish\<close> still returns, with the
  stream as it was plus the annotations and with no row saved.
\<close>

theorem onFinish_persists:
  fixes messages :: "core_message list" and st :: state and chatId :: string
  defines "kept \<equiv> sanitizeResponseMessages messages"
  defines "rows \<equiv> rows_from chatId (uuid_source st) (uuid_count st) (clock st) kept"
  assumes "session_user_id session = Some userId"
  shows
   "list_all (\<lambda>m. role m \<noteq> Assistant \<or> unanswered_calls messages m = []) kept \<and>
    map (\<lambda>r. (msg_role r, msg_content r, msg_chatId r)) rows =
      map (\<lambda>m. (role m, content m, chatId)) kept \<and>
    map msg_id rows = map (uuid_source st) [uuid_count st ..< uuid_count st + length kept] \<and>
    (inj (uuid_source st) \<longrightarrow> distinct (map msg_id rows)) \<and>
    (db_available st \<longrightarrow>
       onFinish session chatId messages st =
         st\<lparr>uuid_count := uuid_count st + length kept,
            dataStream := dataStream st @ annotations_of rows,
            message_rows := message_rows st @ rows\<rparr>) \<and>
    (\<not> db_available st \<longrightarrow>
       fst (onFinish_try chatId messages st) = Inl PersistenceError \<and>
       onFinish session chatId messages st =
         st\<lparr>uuid_count := uuid_count st + length kept,
            dataStream := dataStream st @ annotations_of rows,
            console_errors := console_errors st @ [''Failed to save chat'']\<rparr>)"
proof (intro conjI impI)
  show "list_all (\<lambda>m. role m \<noteq> Assistant \<or> unanswered_calls messages m = []) kept"
    unfolding kept_def by (rule sanitize_strips)
  show "map (\<lambda>r. (msg_role r, msg_content r, msg_chatId r)) rows =
      map (\<lambda>m. (role m, content m, chatId)) kept"
    unfolding rows_def by (rule rows_from_contents)
  show ids: "map msg_id rows = map (uuid_source st) [uuid_count st ..< uuid_count st + length kept]"
    unfolding rows_def by (rule rows_from_ids)
  show "distinct (map msg_id rows)" if "inj (uuid_source st)"
  proof -
    have "inj_on (uuid_source st) (set [uuid_count st ..< uuid_count st + length kept])"
      using that by (rule inj_on_subset) simp
    then show ?thesis unfolding ids by (simp add: distinct_map)
  qed
  show "onFinish session chatId messages st =
         st\<lparr>uuid_count := uuid_count st + length kept,
            dataStream := dataStream st @ annotations_of rows,
            message_rows := message_rows st @ rows\<rparr>" if "db_available st"
    using that assms(3)
    by (simp add: onFinish_def onFinish_try_def message_rows_of_eq saveMessages_def Let_def
        kept_def rows_def)
  show "fst (onFinish_try chatId messages st) = Inl PersistenceError" if "\<not> db_available st"
    using that by (simp add: onFinish_try_def message_rows_of_eq saveMessages_def Let_def)
  show "onFinish session chatId messages st =
         st\<lparr>uuid_count := uuid_count st + length kept,
            dataStream := dataStream st @ annotations_of rows,
            console_errors := console_errors st @ [''Failed to save chat'']\<rparr>"
    if "\<not> db_available st"
    using that assms(3)
    by (simp add: onFinish_def onFinish_try_def message_rows_of_eq saveMessages_def Let_def
        kept_def rows_def)
qed

theorem onFinish_persists_witness:
  "session_user_id alice = Some ''alice'' \<and>
   sanitizeResponseMessages response_demo =
     [\<lparr>role = Assistant, content = Parts [TextPart ''Hi'', ToolCallPart ''call-1'' ''getWeather'']\<rparr>,
      \<lparr>role = Tool, content = Parts [ToolResultPart ''call-1'' ''sunny'']\<rparr>] \<and>
   onFinish alice ''chat-1'' response_demo st_demo =
     st_demo\<lparr>uuid_count := 2,
       dataStream := [WriteMessageAnnotation ''u''],
       message_rows := message_rows st_demo @
         [\<lparr>msg_id = ''u'', msg_chatId = ''chat-1'', msg_role = Assistant,
           msg_content = Parts [TextPart ''Hi'', ToolCallPart ''call-1'' ''getWeather''],
           msg_createdAt = 10\<rparr>,
          \<lparr>msg_id = ''u+'', msg_chatId = ''chat-1'', msg_role = Tool,
           msg_content = Parts [ToolResultPart ''call-1'' ''sunny''], msg_createdAt = 10\<rparr>]\<rparr> \<and>
   onFinish alice ''chat-1'' response_demo (st_demo\<lparr>db_available := False\<rparr>) =
     st_demo\<lparr>db_available := False, uuid_count := 2,
       dataStream := [WriteMessageAnnotation ''u''],
       console_errors := [''Failed to save chat'']\<rparr>"
proof -
  have b: "session_user_id alice = Some ''alice''" by (simp add: alice_def session_user_id_def)
  have k: "sanitizeResponseMessages response_demo =
     [\<lparr>role = Assistant, content = Parts [TextPart ''Hi'', ToolCallPart ''call-1'' ''getWeather'']\<rparr>,
      \<lparr>role = Tool, content = Parts [ToolResultPart ''call-1'' ''sunny'']\<rparr>]"
    by (simp add: sanitizeResponseMessages_def response_demo_def sanitize_message_def)
  have u: "uuid_source st_demo = uuid_demo" "uuid_count st_demo = 0" "clock st_demo = 10"
    "dataStream st_demo = []" "console_errors st_demo = []" "db_available st_demo"
    by (simp_all add: st_demo_def)
  have 1: "onFinish alice ''chat-1'' response_demo st_demo =
     st_demo\<lparr>uuid_count := 2,
       dataStream := [WriteMessageAnnotation ''u''],
       message_rows := message_rows st_demo @
         [\<lparr>msg_id = ''u'', msg_chatId = ''chat-1'', msg_role = Assistant,
           msg_content = Parts [TextPart ''Hi'', ToolCallPart ''call-1'' ''getWeather''],
           msg_createdAt = 10\<rparr>,
          \<lparr>msg_id = ''u+'', msg_chatId = ''chat-1'', msg_role = Tool,
           msg_content = Parts [ToolResultPart ''call-1'' ''sunny''], msg_createdAt = 10\<rparr>]\<rparr>"
    using onFinish_persists [OF b, where messages = response_demo and st = st_demo
        and chatId = "''chat-1''"]
    unfolding k by (simp add: u uuid_demo_def annotations_of_def)
  have 2: "onFinish alice ''chat-1'' response_demo (st_demo\<lparr>db_available := False\<rparr>) =
     st_demo\<lparr>db_available := False, uuid_count := 2,
       dataStream := [WriteMessageAnnotation ''u''],
       console_errors := [''Failed to save chat'']\<rparr>"
    using onFinish_persists [OF b, where messages = response_demo
        and st = "st_demo\<lparr>db_available := False\<rparr>" and chatId = "''chat-1''"]
    unfolding k by (simp add: u uuid_demo_def annotations_of_def)
  show ?thesis using b k 1 2 by simp
qed

section \<open>POST: persistence and the start of the stream\<close>

text \<open>
  C7. For every POST request that passes the three guards (database available): when no
  Chat row has the request's id, the streaming response is started on the state that has
  exactly one more Chat row, with the title \<^verbatim>\<open>generateTitleFromUserMessage\<close> gives for
  the user's message, and exactly one more Message row, the user's message under the next
  identifier of the supply and with the current time; when a Chat row has the id, it is
  started on the state with the same Chat rows and that one more Message row. In both
  cases the streaming phase itself leaves the Chat table as it found it.
\<close>

theorem POST_creates_chat_and_message:
  fixes env :: env and req :: request and st :: state
  assumes "auth env = Some session" and "session_user_id session = Some userId"
    and "find (\<lambda>m. model_id m = req_modelId req) (models env) = Some model"
    and "convertToCoreMessages env (req_messages req) = Inr coreMessages"
    and "getMostRecentUserMessage coreMessages = Some userMessage"
    and "db_available st"
  defines "userMessageId \<equiv> uuid_source st (uuid_count st)"
  defines "row \<equiv> \<lparr>msg_id = userMessageId, msg_chatId = req_id req,
                    msg_role = role userMessage, msg_content = content userMessage,
                    msg_createdAt = clock st\<rparr>"
  defines "newChat \<equiv> \<lparr>chat_id = req_id req, chat_userId = userId,
                        chat_title = generateTitleFromUserMessage env userMessage,
                        chat_createdAt = clock st\<rparr>"
  shows
   "(find (\<lambda>c. chat_id c = req_id req) (chat_rows st) = None \<longrightarrow>
       POST env (JsonBody req) st =
         createDataStreamResponse
           (execute env session model (req_id req) coreMessages userMessageId)
           (st\<lparr>chat_rows := chat_rows st @ [newChat],
               uuid_count := Suc (uuid_count st),
               message_rows := message_rows st @ [row]\<rparr>) \<and>
       chat_rows (snd (POST env (JsonBody req) st)) = chat_rows st @ [newChat]) \<and>
    (find (\<lambda>c. chat_id c = req_id req) (chat_rows st) \<noteq> None \<longrightarrow>
       POST env (JsonBody req) st =
         createDataStreamResponse
           (execute env session model (req_id req) coreMessages userMessageId)
           (st\<lparr>uuid_count := Suc (uuid_count st),
               message_rows := message_rows st @ [row]\<rparr>) \<and>
       chat_rows (snd (POST env (JsonBody req) st)) = chat_rows st) \<and>
    role userMessage = User"
proof (intro conjI impI)
  note acc = POST_accepts [OF assms(1-5), of st]
  show "role userMessage = User"
    using assms(5) by (rule getMostRecentUserMessage_role)
  {
    assume n: "find (\<lambda>c. chat_id c = req_id req) (chat_rows st) = None"
    let ?st1 = "st\<lparr>chat_rows := chat_rows st @ [newChat],
               uuid_count := Suc (uuid_count st),
               message_rows := message_rows st @ [row]\<rparr>"
    show p: "POST env (JsonBody req) st =
         createDataStreamResponse
           (execute env session model (req_id req) coreMessages userMessageId) ?st1"
      unfolding acc saveUserMessage_new_chat [OF assms(6) n]
      by (simp add: userMessageId_def row_def newChat_def)
    from createDataStreamResponse_execute
      [of env session model "req_id req" coreMessages userMessageId ?st1]
    show "chat_rows (snd (POST env (JsonBody req) st)) = chat_rows st @ [newChat]"
      unfolding p by auto
  }
  {
    assume "find (\<lambda>c. chat_id c = req_id req) (chat_rows st) \<noteq> None"
    then obtain c where s: "find (\<lambda>c. chat_id c = req_id req) (chat_rows st) = Some c"
      by auto
    let ?st1 = "st\<lparr>uuid_count := Suc (uuid_count st),
               message_rows := message_rows st @ [row]\<rparr>"
    show p: "POST env (JsonBody req) st =
         createDataStreamResponse
           (execute env session model (req_id req) coreMessages userMessageId) ?st1"
      unfolding acc saveUserMessage_existing_chat [OF assms(6) s]
      by (simp add: userMessageId_def row_def)
    from createDataStreamResponse_execute
      [of env session model "req_id req" coreMessages userMessageId ?st1]
    show "chat_rows (snd (POST env (JsonBody req) st)) = chat_rows st"
      unfolding p by auto
  }
qed

theorem POST_creates_chat_and_message_witness:
  "auth env_demo = Some alice \<and> session_user_id alice = Some ''alice'' \<and>
   find (\<lambda>m. model_id m = req_modelId req_demo) (models env_demo) = Some gpt \<and>
   convertToCoreMessages env_demo (req_messages req_demo) =
     Inr [\<lparr>role = User, content = Text ''Hello''\<rparr>] \<and>
   getMostRecentUserMessage [\<lparr>role = User, content = Text ''Hello''\<rparr>] =
     Some \<lparr>role = User, content = Text ''Hello''\<rparr> \<and>
   db_available st_demo \<and>
   chat_rows (snd (POST env_demo (JsonBody req_demo) st_demo)) =
     chat_rows st_demo @
       [\<lparr>chat_id = ''chat-9'', chat_userId = ''alice'', chat_title = ''A greeting'',
         chat_createdAt = 10\<rparr>] \<and>
   chat_rows (snd (POST env_demo (JsonBody (req_demo\<lparr>req_id := ''chat-2''\<rparr>)) st_demo)) =
     chat_rows st_demo"
proof -
  let ?um = "\<lparr>role = User, content = Text ''Hello''\<rparr>"
  have a: "auth env_demo = Some alice" by (simp add: env_demo_def)
  have b: "session_user_id alice = Some ''alice''" by (simp add: alice_def session_user_id_def)
  have c: "find (\<lambda>m. model_id m = req_modelId req_demo) (models env_demo) = Some gpt"
    by (simp add: env_demo_def req_demo_def gpt_def)
  have c2: "find (\<lambda>m. model_id m = req_modelId (req_demo\<lparr>req_id := ''chat-2''\<rparr>))
              (models env_demo) = Some gpt"
    using c by simp
  have d: "convertToCoreMessages env_demo (req_messages req_demo) = Inr [?um]"
    by (simp add: env_demo_def req_demo_def role_demo_def convert_message_demo_def)
  have g: "getMostRecentUserMessage [?um] = Some ?um"
    by (simp add: getMostRecentUserMessage_def)
  have d2: "convertToCoreMessages env_demo (req_messages (req_demo\<lparr>req_id := ''chat-2''\<rparr>)) =
              Inr [?um]"
    using d by simp
  have e: "db_available st_demo" by (simp add: st_demo_def)
  have n: "find (\<lambda>c. chat_id c = req_id req_demo) (chat_rows st_demo) = None"
    by (simp add: req_demo_def st_demo_def)
  have s: "find (\<lambda>c. chat_id c = req_id (req_demo\<lparr>req_id := ''chat-2''\<rparr>)) (chat_rows st_demo)
            \<noteq> None"
    by (simp add: st_demo_def)
  have 1: "chat_rows (snd (POST env_demo (JsonBody req_demo) st_demo)) =
     chat_rows st_demo @
       [\<lparr>chat_id = ''chat-9'', chat_userId = ''alice'', chat_title = ''A greeting'',
         chat_createdAt = 10\<rparr>]"
    using POST_creates_chat_and_message [OF a b c d g e, THEN conjunct1, rule_format, OF n,
        THEN conjunct2]
    by (simp add: req_demo_def env_demo_def st_demo_def)
  have 2: "chat_rows (snd (POST env_demo (JsonBody (req_demo\<lparr>req_id := ''chat-2''\<rparr>)) st_demo)) =
     chat_rows st_demo"
    by (rule POST_creates_chat_and_message [OF a b c2 d2 g e, THEN conjunct2, THEN conjunct1,
        rule_format, OF s, THEN conjunct2])
  show ?thesis using a b c d g e 1 2 by simp
qed

text \<open>
  C8. For every POST request that passes the guards (database available), the response
  is the stream, its first event is the user-message-id event, nothing of the model or of
  a tool comes before it, and its content is the identifier of the Message row under
  which the user's message was saved.
\<close>

theorem POST_first_event:
  fixes env :: env and req :: request and st :: state
  defines "userMessageId \<equiv> uuid_source st (uuid_count st)"
  assumes "auth env = Some session" and "session_user_id session = Some userId"
    and "find (\<lambda>m. model_id m = req_modelId req) (models env) = Some model"
    and "convertToCoreMessages env (req_messages req) = Inr coreMessages"
    and "getMostRecentUserMessage coreMessages = Some userMessage"
    and "db_available st"
  shows "\<exists>rest st' later.
     POST env (JsonBody req) st =
       (StreamResponse (WriteData ''user-message-id'' (Str userMessageId) # rest), st') \<and>
     message_rows st' = message_rows st @
       \<lparr>msg_id = userMessageId, msg_chatId = req_id req,
        msg_role = role userMessage, msg_content = content userMessage,
        msg_createdAt = clock st\<rparr> # later"
proof -
  from POST_streams [OF assms(2-7)] obtain st1 where
    p: "POST env (JsonBody req) st =
       createDataStreamResponse
         (execute env session model (req_id req)
            coreMessages userMessageId) st1"
    and m: "message_rows st1 = message_rows st @
       [\<lparr>msg_id = userMessageId, msg_chatId = req_id req,
         msg_role = role userMessage, msg_content = content userMessage,
         msg_createdAt = clock st\<rparr>]"
    unfolding userMessageId_def by blast
  from createDataStreamResponse_execute
    [of env session model "req_id req" coreMessages userMessageId st1]
  obtain rest st' later where
    "createDataStreamResponse
       (execute env session model (req_id req)
          coreMessages userMessageId) st1 =
       (StreamResponse (WriteData ''user-message-id'' (Str userMessageId) # rest), st')"
    and "message_rows st' = message_rows st1 @ later"
    by blast
  then show ?thesis using p m by simp
qed

theorem POST_first_event_witness:
  "auth env_demo = Some alice \<and> session_user_id alice = Some ''alice'' \<and>
   find (\<lambda>m. model_id m = req_modelId req_demo) (models env_demo) = Some gpt \<and>
   convertToCoreMessages env_demo (req_messages req_demo) =
     Inr [\<lparr>role = User, content = Text ''Hello''\<rparr>] \<and>
   getMostRecentUserMessage [\<lparr>role = User, content = Text ''Hello''\<rparr>] =
     Some \<lparr>role = User, content = Text ''Hello''\<rparr> \<and>
   db_available st_demo \<and>
   (\<exists>rest st' later.
      POST env_demo (JsonBody req_demo) st_demo =
        (StreamResponse (WriteData ''user-message-id'' (Str ''u'') # rest), st') \<and>
      message_rows st' = message_rows st_demo @
        \<lparr>msg_id = ''u'', msg_chatId = ''chat-9'', msg_role = User,
         msg_content = Text ''Hello'', msg_createdAt = 10\<rparr> # later)"
proof -
  let ?um = "\<lparr>role = User, content = Text ''Hello''\<rparr>"
  have a: "auth env_demo = Some alice" by (simp add: env_demo_def)
  have b: "session_user_id alice = Some ''alice''" by (simp add: alice_def session_user_id_def)
  have c: "find (\<lambda>m. model_id m = req_modelId req_demo) (models env_demo) = Some gpt"
    by (simp add: env_demo_def req_demo_def gpt_def)
  have d: "convertToCoreMessages env_demo (req_messages req_demo) = Inr [?um]"
    by (simp add: env_demo_def req_demo_def role_demo_def convert_message_demo_def)
  have g: "getMostRecentUserMessage [?um] = Some ?um"
    by (simp add: getMostRecentUserMessage_def)
  have e: "db_available st_demo" by (simp add: st_demo_def)
  have u: "uuid_source st_demo (uuid_count st_demo) = ''u''" "clock st_demo = 10"
    "req_id req_demo = ''chat-9''"
    by (simp_all add: st_demo_def uuid_demo_def req_demo_def)
  show ?thesis
    using a b c d g e POST_first_event [OF a b c d g e] unfolding u by simp
qed

section \<open>updateDocument on an existing document\<close>

text \<open>
  C9, as the claim states it, fails: the claim has only the content replaced. The record
  \<^verbatim>\<open>updateDocument\<close> writes carries \<^verbatim>\<open>userId: session.user.id\<close>, the requester,
  and the tool never compares the requester with the document's owner. Alice updates
  \<^verbatim>\<open>doc-1\<close>, a document of Bob's: afterwards its owner is Alice.
\<close>

theorem updateDocument_owner_replaced:
  "map doc_userId (filter (\<lambda>d. doc_id d = ''doc-1'') (document_rows st_demo)) = [''bob''] \<and>
   map doc_userId (filter (\<lambda>d. doc_id d = ''doc-1'')
      (document_rows (snd (updateDocument env_demo alice gpt ''doc-1'' ''Shorter.'' st_demo)))) =
     [''alice'']"
  by (simp add: updateDocument_def getDocumentById_def saveDocument_def overwrite_def
      writeData_def session_user_id_def env_demo_def alice_def gpt_def st_demo_def)

text \<open>
  C9, amended. For every invocation of \<^verbatim>\<open>updateDocument\<close> on an existing document
  (database available, session user with an id), the first event the tool streams is a
  clear event whose content is the existing title, and the record written at the end
  (the arguments of the one \<^verbatim>\<open>saveDocument\<close> call, and the document then stored under
  the identifier) has the identifier, the kind and the title of the fetched document, the
  newly generated draft as its content, and the requesting user as its owner. No other
  document changes.
\<close>

theorem updateDocument_overwrites:
  assumes "db_available st"
    and "find (\<lambda>d. doc_id d = docId) (document_rows st) = Some document"
    and "session_user_id session = Some userId"
  shows "\<exists>st' rest d'.
     updateDocument env session model docId changes st =
       (Inr (DocumentResult docId (doc_title document) (doc_kind document)
               ''The document has been updated successfully.''), st') \<and>
     dataStream st' = dataStream st @ WriteData ''clear'' (Str (doc_title document)) # rest \<and>
     saveDocument (doc_id document) (doc_title document) (doc_kind document)
        (updated_draft env model document changes) userId
        (st\<lparr>dataStream := dataStream st @
              WriteData ''clear'' (Str (doc_title document)) # rest\<rparr>) = Inr st' \<and>
     getDocumentById docId st' = Inr (Some d') \<and>
     doc_id d' = doc_id document \<and> doc_kind d' = doc_kind document \<and>
     doc_title d' = doc_title document \<and>
     doc_content d' = updated_draft env model document changes \<and>
     doc_userId d' = userId \<and>
     filter (\<lambda>d. doc_id d \<noteq> docId) (document_rows st') =
       filter (\<lambda>d. doc_id d \<noteq> docId) (document_rows st)"
proof -
  let ?draft = "updated_draft env model document changes"
  have idd: "doc_id document = docId" using assms(2) by (auto simp: find_Some_iff)
  obtain rest st2 where
    loop: "(case doc_kind document of
              KText \<Rightarrow>
                (let (d, s) = text_loop (streamText env
                       \<lparr>gen_model = apiIdentifier model,
                        gen_system = updateDocumentPrompt env (doc_content document) KText,
                        gen_prompt = changes, gen_prediction = Some (doc_content document)\<rparr>) []
                       (writeData ''clear'' (Str (doc_title document)) st)
                 in (d, writeData ''finish'' (Str []) s))
            | KCode \<Rightarrow>
                (let (d, s) = code_loop (streamObject env
                       \<lparr>gen_model = apiIdentifier model,
                        gen_system = updateDocumentPrompt env (doc_content document) KCode,
                        gen_prompt = changes, gen_prediction = None\<rparr>) []
                       (writeData ''clear'' (Str (doc_title document)) st)
                 in (d, writeData ''finish'' (Str []) s))) = (?draft, st2)"
    and st2: "st2 = st\<lparr>dataStream := dataStream st @
                 WriteData ''clear'' (Str (doc_title document)) # rest\<rparr>"
    by (cases "doc_kind document")
       (simp_all add: text_loop_eq code_loop_eq updated_draft_def writeData_def)
  have av: "db_available st2" using assms(1) st2 by simp
  have rows2: "document_rows st2 = document_rows st" using st2 by simp
  from saveDocument_stored [OF av, of docId "doc_title document" "doc_kind document" ?draft userId]
  obtain st' d' where s: "saveDocument docId (doc_title document) (doc_kind document) ?draft
                            userId st2 = Inr st'"
    and eq: "st' = st2\<lparr>document_rows := document_rows st'\<rparr>"
    and f: "find (\<lambda>d. doc_id d = docId) (document_rows st') = Some d'"
    and d: "doc_id d' = docId" "doc_title d' = doc_title document"
      "doc_kind d' = doc_kind document" "doc_content d' = ?draft" "doc_userId d' = userId"
    and fr: "filter (\<lambda>d. doc_id d \<noteq> docId) (document_rows st') =
             filter (\<lambda>d. doc_id d \<noteq> docId) (document_rows st2)"
    by blast
  have c: "updateDocument env session model docId changes st =
       (Inr (DocumentResult docId (doc_title document) (doc_kind document)
               ''The document has been updated successfully.''), st')"
    using assms s loop
    by (simp add: updateDocument_def getDocumentById_def Let_def)
  have ds: "dataStream st' = dataStream st2" by (subst eq) simp
  have "db_available st'" using av by (subst eq) simp
  then have g: "getDocumentById docId st' = Inr (Some d')"
    using f by (simp add: getDocumentById_def)
  have s': "saveDocument (doc_id document) (doc_title document) (doc_kind document) ?draft userId
        (st\<lparr>dataStream := dataStream st @
              WriteData ''clear'' (Str (doc_title document)) # rest\<rparr>) = Inr st'"
    using s st2 idd by simp
  show ?thesis
    apply (rule exI [of _ st'], rule exI [of _ rest], rule exI [of _ d'])
    using c ds st2 g d idd fr rows2 s' by simp
qed

theorem updateDocument_overwrites_witness:
  "db_available st_demo \<and>
   find (\<lambda>d. doc_id d = ''doc-2'') (document_rows st_demo) =
     Some \<lparr>doc_id = ''doc-2'', doc_createdAt = 4, doc_title = ''Script'',
           doc_content = [], doc_kind = KCode, doc_userId = ''alice''\<rparr> \<and>
   session_user_id alice = Some ''alice'' \<and>
   (\<exists>d'. getDocumentById ''doc-2''
            (snd (updateDocument env_demo alice gpt ''doc-2'' ''Fix it.'' st_demo)) =
            Inr (Some d') \<and>
         doc_id d' = ''doc-2'' \<and> doc_kind d' = KCode \<and> doc_title d' = ''Script'' \<and>
         doc_content d' = ''print(1)'' \<and> doc_userId d' = ''alice'')"
proof -
  let ?doc = "\<lparr>doc_id = ''doc-2'', doc_createdAt = 4, doc_title = ''Script'',
           doc_content = [], doc_kind = KCode, doc_userId = ''alice''\<rparr>"
  have a: "db_available st_demo" by (simp add: st_demo_def)
  have b: "find (\<lambda>d. doc_id d = ''doc-2'') (document_rows st_demo) = Some ?doc"
    by (simp add: st_demo_def)
  have c: "session_user_id alice = Some ''alice''" by (simp add: alice_def session_user_id_def)
  have d: "updated_draft env_demo gpt ?doc ''Fix it.'' = ''print(1)''"
    by (simp add: updated_draft_def env_demo_def last_or_def)
  from updateDocument_overwrites [OF a b c, of env_demo gpt "''Fix it.''"]
  obtain st' d' where 1: "snd (updateDocument env_demo alice gpt ''doc-2'' ''Fix it.'' st_demo) = st'"
    and 2: "getDocumentById ''doc-2'' st' = Inr (Some d')"
    and 3: "doc_id d' = ''doc-2''" "doc_kind d' = KCode" "doc_title d' = ''Script''"
      "doc_content d' = ''print(1)''" "doc_userId d' = ''alice''"
    unfolding d by auto
  then show ?thesis using a b c by simp
qed

section \<open>POST and the owner of the chat\<close>

text \<open>
  C10. A POST request with a valid session, a configured model and a user message, for a
  chat id whose Chat row belongs to a different user, is not rejected: the handler never
  compares the requester with the owner. The user's message is saved into that chat, the
  Chat row stays as it is, and the response is the stream.
\<close>

theorem POST_other_owner:
  fixes env :: env and req :: request and st :: state and userMessage :: core_message
  defines "row \<equiv> \<lparr>msg_id = uuid_source st (uuid_count st), msg_chatId = req_id req,
                    msg_role = role userMessage, msg_content = content userMessage,
                    msg_createdAt = clock st\<rparr>"
  assumes "auth env = Some session" and "session_user_id session = Some userId"
    and "find (\<lambda>m. model_id m = req_modelId req) (models env) = Some model"
    and "convertToCoreMessages env (req_messages req) = Inr coreMessages"
    and "getMostRecentUserMessage coreMessages = Some userMessage"
    and "db_available st"
    and "find (\<lambda>c. chat_id c = req_id req) (chat_rows st) = Some c"
    and "chat_userId c \<noteq> userId"
  shows "\<exists>events st' later.
     POST env (JsonBody req) st = (StreamResponse events, st') \<and>
     POST env (JsonBody req) st =
       createDataStreamResponse
         (execute env session model (req_id req)
            coreMessages (uuid_source st (uuid_count st)))
         (st\<lparr>uuid_count := Suc (uuid_count st), message_rows := message_rows st @ [row]\<rparr>) \<and>
     message_rows st' = message_rows st @ row # later \<and>
     chat_rows st' = chat_rows st"
proof -
  let ?st1 = "st\<lparr>uuid_count := Suc (uuid_count st), message_rows := message_rows st @ [row]\<rparr>"
  have p: "POST env (JsonBody req) st =
       createDataStreamResponse
         (execute env session model (req_id req)
            coreMessages (uuid_source st (uuid_count st))) ?st1"
    unfolding POST_accepts [OF assms(2-6)] saveUserMessage_existing_chat [OF assms(7,8)]
    by (simp add: row_def)
  from createDataStreamResponse_execute
    [of env session model "req_id req" coreMessages "uuid_source st (uuid_count st)" ?st1]
  obtain rest st' later where
    "createDataStreamResponse
       (execute env session model (req_id req)
          coreMessages (uuid_source st (uuid_count st))) ?st1 =
       (StreamResponse (WriteData ''user-message-id'' (Str (uuid_source st (uuid_count st))) # rest), st')"
    and "chat_rows st' = chat_rows ?st1"
    and "message_rows st' = message_rows ?st1 @ later"
    by blast
  then show ?thesis using p by simp
qed

theorem POST_other_owner_witness:
  "auth env_demo = Some alice \<and> session_user_id alice = Some ''alice'' \<and>
   find (\<lambda>m. model_id m = req_modelId (req_demo\<lparr>req_id := ''chat-2''\<rparr>)) (models env_demo) =
     Some gpt \<and>
   convertToCoreMessages env_demo (req_messages (req_demo\<lparr>req_id := ''chat-2''\<rparr>)) =
     Inr [\<lparr>role = User, content = Text ''Hello''\<rparr>] \<and>
   getMostRecentUserMessage [\<lparr>role = User, content = Text ''Hello''\<rparr>] =
     Some \<lparr>role = User, content = Text ''Hello''\<rparr> \<and>
   db_available st_demo \<and>
   find (\<lambda>c. chat_id c = req_id (req_demo\<lparr>req_id := ''chat-2''\<rparr>)) (chat_rows st_demo) =
     Some \<lparr>chat_id = ''chat-2'', chat_userId = ''bob'', chat_title = ''Second'',
           chat_createdAt = 2\<rparr> \<and>
   chat_userId \<lparr>chat_id = ''chat-2'', chat_userId = ''bob'', chat_title = ''Second'',
           chat_createdAt = 2\<rparr> \<noteq> ''alice'' \<and>
   (\<exists>events st' later.
      POST env_demo (JsonBody (req_demo\<lparr>req_id := ''chat-2''\<rparr>)) st_demo =
        (StreamResponse events, st') \<and>
      message_rows st' = message_rows st_demo @
        \<lparr>msg_id = ''u'', msg_chatId = ''chat-2'', msg_role = User,
         msg_content = Text ''Hello'', msg_createdAt = 10\<rparr> # later \<and>
      chat_rows st' = chat_rows st_demo)"
proof -
  let ?um = "\<lparr>role = User, content = Text ''Hello''\<rparr>"
  let ?req = "req_demo\<lparr>req_id := ''chat-2''\<rparr>"
  let ?c = "\<lparr>chat_id = ''chat-2'', chat_userId = ''bob'', chat_title = ''Second'',
           chat_createdAt = 2\<rparr>"
  have a: "auth env_demo = Some alice" by (simp add: env_demo_def)
  have b: "session_user_id alice = Some ''alice''" by (simp add: alice_def session_user_id_def)
  have c: "find (\<lambda>m. model_id m = req_modelId ?req) (models env_demo) = Some gpt"
    by (simp add: env_demo_def req_demo_def gpt_def)
  have d: "convertToCoreMessages env_demo (req_messages ?req) = Inr [?um]"
    by (simp add: env_demo_def req_demo_def role_demo_def convert_message_demo_def)
  have h: "getMostRecentUserMessage [?um] = Some ?um"
    by (simp add: getMostRecentUserMessage_def)
  have e: "db_available st_demo" by (simp add: st_demo_def)
  have f: "find (\<lambda>c. chat_id c = req_id ?req) (chat_rows st_demo) = Some ?c"
    by (simp add: st_demo_def)
  have g: "chat_userId ?c \<noteq> ''alice''" by simp
  have u: "uuid_source st_demo (uuid_count st_demo) = ''u''" "clock st_demo = 10"
    by (simp_all add: st_demo_def uuid_demo_def)
  from POST_other_owner [OF a b c d h e f g]
  obtain events st' later where
    "POST env_demo (JsonBody ?req) st_demo = (StreamResponse events, st')"
    and "message_rows st' = message_rows st_demo @
        \<lparr>msg_id = ''u'', msg_chatId = ''chat-2'', msg_role = User,
         msg_content = Text ''Hello'', msg_createdAt = 10\<rparr> # later"
    and "chat_rows st' = chat_rows st_demo"
    unfolding u by auto
  then show ?thesis using a b c d h e f g by blast
qed

end
